theory Spec2Isabelle
  imports Complex_Main "HOL-Library.AList" "HOL-Library.Monad_Syntax" "HOL-Library.Sublist"
begin

section \<open>JavaScript values\<close>

text \<open>
  The adapter of \<^verbatim>\<open>modules/criteoBidAdapter.js\<close> works on untyped values: bid requests
  handed over by the auction framework and the parsed JSON of the bidder's response. They are
  modelled by one datatype. Finite numbers are exact rationals (the adapter only copies,
  compares and tests them), \<open>NaN\<close> is a value of its own, an object is the list of its own
  properties in insertion order (where a key stands twice, the first entry is the property),
  and a function is an opaque handle.
\<close>

datatype jsval =
    Undefined
  | Null
  | Bool bool
  | Num rat
  | NaN
  | Str string
  | Arr "jsval list"
  | Obj "(string \<times> jsval) list"
  | Fun nat

text \<open>
  A computation that may throw returns an option: \<open>None\<close> is a thrown exception. The
  adapter's own statements can only raise a \<^verbatim>\<open>TypeError\<close>, by a property read on
  \<^verbatim>\<open>undefined\<close> or \<^verbatim>\<open>null\<close> or by a call of something that is no function; the one
  other exception is the \<^verbatim>\<open>URIError\<close> of \<^verbatim>\<open>parse\<close> in \<^verbatim>\<open>buildContext\<close>.
\<close>

text \<open>ToBoolean: what \<^verbatim>\<open>if (v)\<close>, \<^verbatim>\<open>v && w\<close>, \<^verbatim>\<open>v || w\<close> and \<^verbatim>\<open>!!v\<close> test.\<close>

fun truthy :: "jsval \<Rightarrow> bool" where
  "truthy Undefined = False"
| "truthy Null = False"
| "truthy (Bool b) = b"
| "truthy (Num n) = (n \<noteq> 0)"
| "truthy NaN = False"
| "truthy (Str s) = (s \<noteq> [])"
| "truthy (Arr xs) = True"
| "truthy (Obj ps) = True"
| "truthy (Fun f) = True"

text \<open>
  Property read \<^verbatim>\<open>v.k\<close> for the fixed keys the adapter reads (none of them is a member of
  a built-in prototype): it throws on \<^verbatim>\<open>undefined\<close> and \<^verbatim>\<open>null\<close>, reads an object's own
  property, and is \<^verbatim>\<open>undefined\<close> on every other value.
\<close>

fun get :: "jsval \<Rightarrow> string \<Rightarrow> jsval option" where
  "get Undefined k = None"
| "get Null k = None"
| "get (Obj ps) k = Some (case map_of ps k of None \<Rightarrow> Undefined | Some v \<Rightarrow> v)"
| "get v k = Some Undefined"

text \<open>
  Strict equality \<^verbatim>\<open>a === b\<close>. Primitives compare by value and \<open>NaN\<close> equals nothing.
  Every comparison of the adapter is with a literal or has one operand from the request
  batch and one from the parsed response, so two objects, arrays or functions are never the
  same reference.
\<close>

fun by_value :: "jsval \<Rightarrow> bool" where
  "by_value NaN = False"
| "by_value (Arr xs) = False"
| "by_value (Obj ps) = False"
| "by_value (Fun f) = False"
| "by_value v = True"

definition strict_eq :: "jsval \<Rightarrow> jsval \<Rightarrow> bool" where
  "strict_eq a b = (by_value a \<and> a = b)"

text \<open>
  The decimal text of a natural number: what \<^verbatim>\<open>String(n)\<close> and string concatenation give
  for the constants, the cache buster and an array index.
\<close>

fun show_nat :: "nat \<Rightarrow> string" where
  "show_nat n =
     (if n < 10 then [char_of (48 + n)]
      else show_nat (n div 10) @ [char_of (48 + n mod 10)])"

declare show_nat.simps [simp del]

text \<open>
  Indexed read \<^verbatim>\<open>v[i]\<close> for an index that is a natural number or its decimal text: an
  element of an array, a character of a string, the property of that name of an object.
\<close>

fun get_index :: "jsval \<Rightarrow> nat \<Rightarrow> jsval option" where
  "get_index Undefined i = None"
| "get_index Null i = None"
| "get_index (Arr xs) i = Some (if i < length xs then xs ! i else Undefined)"
| "get_index (Str s) i = Some (if i < length s then Str [s ! i] else Undefined)"
| "get_index (Obj ps) i = get (Obj ps) (show_nat i)"
| "get_index v i = Some Undefined"

section \<open>The validity predicate\<close>

text \<open>
  \<^verbatim>\<open>isBidRequestValid: bid => !!(bid && bid.params && (bid.params.zoneId || bid.params.networkId))\<close>
\<close>

definition isBidRequestValid :: "jsval \<Rightarrow> bool option" where
  "isBidRequestValid bid =
     (if \<not> truthy bid then Some False
      else do {
        params \<leftarrow> get bid ''params'';
        if \<not> truthy params then Some False
        else do {
          zoneId \<leftarrow> get params ''zoneId'';
          if truthy zoneId then Some True
          else do {
            networkId \<leftarrow> get params ''networkId'';
            Some (truthy networkId)
          }
        }
      })"

section \<open>The page and its browser\<close>

text \<open>
  The richer vendor adapter \<^verbatim>\<open>Criteo.PubTag.Adapters.Prebid\<close> is code of another
  repository: it is a record of the functions the adapter calls on it. Its constructor takes
  the batch and the bidder request (after the two constants), \<^verbatim>\<open>GetAdapter\<close> may find no
  adapter for a request.
\<close>

record server_request =
  req_method :: string
  req_url :: jsval
  req_data :: jsval
  req_bidRequests :: "jsval list"

record delegate =
  d_buildCdbUrl :: "jsval list \<Rightarrow> jsval \<Rightarrow> jsval"
  d_buildCdbRequest :: "jsval list \<Rightarrow> jsval \<Rightarrow> jsval"
  d_GetAdapter :: "server_request \<Rightarrow> bool"
  d_interpretResponse :: "jsval \<Rightarrow> server_request \<Rightarrow> jsval"

text \<open>
  The one callback of the file is the arrow function \<^verbatim>\<open>(valid) => {...}\<close> of
  \<^verbatim>\<open>tryGetCriteoFastBid\<close>, closed over the cached script.
\<close>

datatype callback = UseOrEvict string

datatype completion = Normal | Abrupt

text \<open>
  The mutable state the adapter reads and writes: the entry \<^verbatim>\<open>criteo_fast_bid\<close> of
  \<^verbatim>\<open>localStorage\<close>, the scripts handed to \<^verbatim>\<open>eval\<close>, the messages logged, the
  continuations that promises and events have queued (each will call the callback with the
  given value), the delegate when \<^verbatim>\<open>publisherTagAvailable()\<close> holds, the flag
  \<^verbatim>\<open>window.Criteo.usePrebidEvents\<close>, the delays of the scheduled reloads of the publisher
  tag, and \<^verbatim>\<open>window.criteo_prebid_native_slots\<close>.
\<close>

record page =
  storage :: "string option"
  executed :: "string list"
  console :: "string list"
  pending :: "(callback \<times> jsval) list"
  pubTag :: "delegate option"
  usePrebidEvents :: "bool option"
  timers :: "jsval list"
  native_slots :: "(string \<times> jsval \<times> jsval) list"

datatype import_result = KeyImported | ImportFailed | ImportThrows

datatype verify_result = Verified bool | VerifyFailed | VerifyThrows

text \<open>
  What the script does when it is evaluated is reduced to what the adapter can observe of
  it: whether it installs the delegate and whether it raises.
\<close>

record eval_effect =
  installs :: "delegate option"
  raises :: bool

text \<open>
  The browser around the page, fixed during a call: which crypto objects exist
  (\<^verbatim>\<open>window.crypto.subtle\<close>, \<^verbatim>\<open>window.crypto.webkitSubtle\<close>, \<^verbatim>\<open>window.msCrypto\<close>),
  how \<^verbatim>\<open>importKey\<close> ends, how \<^verbatim>\<open>verify\<close> ends for a signature text and a body
  (\<open>VerifyThrows\<close>: the continuation raises before it calls back, as when \<^verbatim>\<open>atob\<close>
  rejects the text), whether reading \<^verbatim>\<open>localStorage\<close> throws, what a script does, the
  address of the top window, what \<^verbatim>\<open>parse(url).search\<close> is for that address, the value
  of \<^verbatim>\<open>Math.floor(Math.random() * 99999999999)\<close>, and the engine's texts for a finite
  number and for a function.

  \<^verbatim>\<open>parse\<close> lives in \<^verbatim>\<open>src/url\<close>, which is not among the sources. It decodes the
  address before it splits the query into keys and values, and decoding throws a
  \<^verbatim>\<open>URIError\<close> on an address with a malformed \<^verbatim>\<open>%\<close> escape, such as
  \<^verbatim>\<open>http://publisher.test/?q=100%\<close>: \<open>search\<close> is \<open>None\<close> for such an address, and
  otherwise the keys of the query that have a string value, each with its value.
\<close>

record browser =
  crypto_subtle :: bool
  crypto_webkitSubtle :: bool
  msCrypto :: bool
  importKey :: import_result
  verify :: "string \<Rightarrow> string \<Rightarrow> verify_result"
  storageBlocked :: bool
  evalScript :: "string \<Rightarrow> eval_effect"
  topWindowUrl :: string
  search :: "(string \<times> string) list option"
  random :: nat
  numberToString :: "rat \<Rightarrow> string"
  functionToString :: "nat \<Rightarrow> string"

text \<open>
  ToString, as string concatenation, a template literal and a computed property key apply
  it. An array joins its elements with commas, a plain object gives
  \<^verbatim>\<open>[object Object]\<close> (objects that carry a \<^verbatim>\<open>toString\<close> of their own are not modelled).
\<close>

fun join :: "string list \<Rightarrow> string" where
  "join [] = []"
| "join [s] = s"
| "join (s # t # ss) = s @ '','' @ join (t # ss)"

fun toStr :: "browser \<Rightarrow> jsval \<Rightarrow> string" where
  "toStr w Undefined = ''undefined''"
| "toStr w Null = ''null''"
| "toStr w (Bool b) = (if b then ''true'' else ''false'')"
| "toStr w (Num n) = numberToString w n"
| "toStr w NaN = ''NaN''"
| "toStr w (Str s) = s"
| "toStr w (Arr xs) =
     join (map (\<lambda>x. if x = Undefined \<or> x = Null then [] else toStr w x) xs)"
| "toStr w (Obj ps) = ''[object Object]''"
| "toStr w (Fun f) = functionToString w f"

section \<open>The cached FastBid script\<close>

text \<open>
  The string functions \<^verbatim>\<open>validateFastBid\<close> uses. A script is a string of one-byte
  characters. \<^verbatim>\<open>indexOf\<close> is \<open>-1\<close> when the character does not occur, \<^verbatim>\<open>substr\<close> with a
  negative length is empty, and \<^verbatim>\<open>trim\<close> removes white space and line ends at both ends.
\<close>

definition indexOf :: "string \<Rightarrow> char \<Rightarrow> int" where
  "indexOf s c = (if c \<in> set s then int (length (takeWhile (\<lambda>x. x \<noteq> c) s)) else - 1)"

definition substr :: "string \<Rightarrow> int \<Rightarrow> int \<Rightarrow> string" where
  "substr s start len = take (nat len) (drop (nat start) s)"

definition substr_from :: "string \<Rightarrow> int \<Rightarrow> string" where
  "substr_from s start = drop (nat start) s"

definition is_space :: "char \<Rightarrow> bool" where
  "is_space c =
     (c \<in> set [CHR 0x09, CHR 0x0A, CHR 0x0B, CHR 0x0C, CHR 0x0D, CHR 0x20, CHR 0xA0])"

definition trim :: "string \<Rightarrow> string" where
  "trim s = rev (dropWhile is_space (rev (dropWhile is_space s)))"

definition warn :: "string \<Rightarrow> page \<Rightarrow> page" where
  "warn msg p = p\<lparr>console := console p @ [msg]\<rparr>"

text \<open>\<^verbatim>\<open>eval(fastBid)\<close>: the script is recorded as executed, then has its effect.\<close>

definition eval_script :: "browser \<Rightarrow> string \<Rightarrow> page \<Rightarrow> completion \<times> page" where
  "eval_script w script p =
     (let eff = evalScript w script;
          p' = p\<lparr>executed := executed p @ [script],
                 pubTag := (case installs eff of None \<Rightarrow> pubTag p | Some d \<Rightarrow> Some d)\<rparr>
      in (if raises eff then Abrupt else Normal, p'))"

text \<open>
  The callback of \<^verbatim>\<open>tryGetCriteoFastBid\<close>:
  \<^verbatim>\<open>if (valid === false) { logWarn(..); localStorage.removeItem(..) } else { logInfo(..); eval(fastBid) }\<close>
\<close>

fun call :: "browser \<Rightarrow> callback \<Rightarrow> jsval \<Rightarrow> page \<Rightarrow> completion \<times> page" where
  "call w (UseOrEvict fastBid) valid p =
     (if strict_eq valid (Bool False) then
        (Normal, (warn ''Invalid Criteo FastBid found'' p)\<lparr>storage := None\<rparr>)
      else eval_script w fastBid (warn ''Using Criteo FastBid'' p))"

definition later :: "callback \<Rightarrow> jsval \<Rightarrow> page \<Rightarrow> page" where
  "later cb v p = p\<lparr>pending := pending p @ [(cb, v)]\<rparr>"

text \<open>
  \<^verbatim>\<open>cryptoVerify(algo, key, hash, code, callback)\<close>; the algorithm and the key are the
  constants of the file. With a standard crypto object the call goes to
  \<^verbatim>\<open>window.crypto.subtle.importKey\<close> even when only \<^verbatim>\<open>webkitSubtle\<close> exists, and then
  throws. Promise and event continuations run later: they are queued. Without any crypto
  object the callback is called at once with \<^verbatim>\<open>undefined\<close>. The standard branch and the
  branch for \<^verbatim>\<open>msCrypto\<close> have the same shape, \<open>continuation\<close>: a key that cannot be
  imported gives \<^verbatim>\<open>callback(undefined)\<close>, a verification that fails gives
  \<^verbatim>\<open>callback(false)\<close>, one that ends gives its result.
\<close>

definition standardSubtle :: "browser \<Rightarrow> bool" where
  "standardSubtle w = (crypto_subtle w \<or> crypto_webkitSubtle w)"

definition continuation :: "browser \<Rightarrow> string \<Rightarrow> string \<Rightarrow> callback \<Rightarrow> page \<Rightarrow> completion \<times> page" where
  "continuation w hash code cb p =
     (case importKey w of
        ImportThrows \<Rightarrow> (Abrupt, p)
      | ImportFailed \<Rightarrow> (Normal, later cb Undefined p)
      | KeyImported \<Rightarrow>
          (case verify w hash code of
             Verified b \<Rightarrow> (Normal, later cb (Bool b) p)
           | VerifyFailed \<Rightarrow> (Normal, later cb (Bool False) p)
           | VerifyThrows \<Rightarrow> (Normal, p)))"

definition cryptoVerify :: "browser \<Rightarrow> string \<Rightarrow> string \<Rightarrow> callback \<Rightarrow> page \<Rightarrow> completion \<times> page" where
  "cryptoVerify w hash code cb p =
     (if standardSubtle w then
        (if crypto_subtle w then continuation w hash code cb p else (Abrupt, p))
      else if msCrypto w then continuation w hash code cb p
      else call w cb Undefined p)"

text \<open>
  \<^verbatim>\<open>validateFastBid(fastBid, callback)\<close>. After \<^verbatim>\<open>callback(false)\<close> for a first line
  without the hash prefix the function goes on: there is no \<^verbatim>\<open>return\<close>. An exception of
  \<^verbatim>\<open>cryptoVerify\<close> is caught and answered with \<^verbatim>\<open>callback(undefined)\<close>.
\<close>

definition newline :: char where
  "newline = CHR 0x0A"

definition validateFastBid :: "browser \<Rightarrow> string \<Rightarrow> callback \<Rightarrow> page \<Rightarrow> completion \<times> page" where
  "validateFastBid w fastBid cb p =
     (let firstLineEnd = indexOf fastBid newline;
          firstLine = trim (substr fastBid 0 firstLineEnd);
          (c1, p1) = (if substr firstLine 0 9 \<noteq> ''// Hash: ''
                      then call w cb (Bool False) (warn ''No hash found in FastBid'' p)
                      else (Normal, p))
      in if c1 = Abrupt then (Abrupt, p1)
         else
           let fileEncryptedHash = substr_from firstLine 9;
               publisherTag = substr_from fastBid (firstLineEnd + 1);
               (c2, p2) = cryptoVerify w fileEncryptedHash publisherTag cb p1
           in if c2 = Abrupt
              then call w cb Undefined (warn ''Failed to verify Criteo FastBid'' p2)
              else (Normal, p2))"

text \<open>
  \<^verbatim>\<open>tryGetCriteoFastBid()\<close>: every exception is swallowed by its \<^verbatim>\<open>try\<close>.
\<close>

definition tryGetCriteoFastBid :: "browser \<Rightarrow> page \<Rightarrow> page" where
  "tryGetCriteoFastBid w p =
     (if storageBlocked w then p
      else case storage p of
             None \<Rightarrow> p
           | Some fastBid \<Rightarrow> snd (validateFastBid w fastBid (UseOrEvict fastBid) p))"

text \<open>
  The queued continuations run once the adapter has returned, in order; what one of them
  raises reaches nobody.
\<close>

fun run_queue :: "browser \<Rightarrow> (callback \<times> jsval) list \<Rightarrow> page \<Rightarrow> page" where
  "run_queue w [] p = p"
| "run_queue w ((cb, v) # q) p = run_queue w q (snd (call w cb v p))"

definition settle :: "browser \<Rightarrow> page \<Rightarrow> page" where
  "settle w p = run_queue w (pending p) (p\<lparr>pending := []\<rparr>)"

section \<open>The response interpreter\<close>

text \<open>
  Modelled from the spec: \<^verbatim>\<open>utils.isArray\<close> lives in \<^verbatim>\<open>src/utils\<close>, which is not among
  the sources; the spec asks for a list-typed \<^verbatim>\<open>slots\<close> field.
\<close>

fun isArray :: "jsval \<Rightarrow> bool" where
  "isArray (Arr xs) = True"
| "isArray v = False"

fun elements :: "jsval \<Rightarrow> jsval list" where
  "elements (Arr xs) = xs"
| "elements v = []"

text \<open>\<^verbatim>\<open>const body = response.body || response\<close>\<close>

definition response_body :: "jsval \<Rightarrow> jsval option" where
  "response_body response = do {
     b \<leftarrow> get response ''body'';
     Some (if truthy b then b else response)
   }"

text \<open>
  The predicate of \<^verbatim>\<open>find\<close>:
  \<^verbatim>\<open>b => b.adUnitCode === slot.impid && b.params.zoneId === slot.zoneid\<close>
\<close>

definition matches :: "jsval \<Rightarrow> jsval \<Rightarrow> bool option" where
  "matches slot b = do {
     adUnitCode \<leftarrow> get b ''adUnitCode'';
     impid \<leftarrow> get slot ''impid'';
     if \<not> strict_eq adUnitCode impid then Some False
     else do {
       params \<leftarrow> get b ''params'';
       zoneId \<leftarrow> get params ''zoneId'';
       zoneid \<leftarrow> get slot ''zoneid'';
       Some (strict_eq zoneId zoneid)
     }
   }"

text \<open>
  \<^verbatim>\<open>Array.prototype.find\<close>: the first element the predicate accepts, \<^verbatim>\<open>undefined\<close> when
  there is none.
\<close>

fun find_js :: "('a \<Rightarrow> bool option) \<Rightarrow> 'a list \<Rightarrow> 'a option option" where
  "find_js f [] = Some None"
| "find_js f (b # bs) = do { hit \<leftarrow> f b; if hit then Some (Some b) else find_js f bs }"

definition or_undefined :: "jsval option \<Rightarrow> jsval" where
  "or_undefined r = (case r of None \<Rightarrow> Undefined | Some v \<Rightarrow> v)"

text \<open>
  \<^verbatim>\<open>createNativeAd(id, payload, callback)\<close> stores the callback and the payload under the
  id and returns the markup that looks them up.
\<close>

definition dq :: char where
  "dq = CHR 0x22"

definition native_markup :: "string \<Rightarrow> string" where
  "native_markup id' =
     ''<script type='' @ [dq] @ ''text/javascript'' @ [dq] @ ''>'' @ [newline] @
     ''    var win = window;'' @ [newline] @
     ''    for (var i = 0; i < 10; ++i) {'' @ [newline] @
     ''      win = win.parent;'' @ [newline] @
     ''      if (win.criteo_prebid_native_slots) {'' @ [newline] @
     ''        var responseSlot = win.criteo_prebid_native_slots['' @ [dq] @ id' @ [dq] @ ''];'' @ [newline] @
     ''        responseSlot.callback(responseSlot.payload);'' @ [newline] @
     ''        break;'' @ [newline] @
     ''      }'' @ [newline] @
     ''    }'' @ [newline] @
     ''  </script>''"

definition createNativeAd :: "browser \<Rightarrow> jsval \<Rightarrow> jsval \<Rightarrow> jsval \<Rightarrow> page \<Rightarrow> string \<times> page" where
  "createNativeAd w id' payload cb p =
     (native_markup (toStr w id'),
      p\<lparr>native_slots := AList.update (toStr w id') (cb, payload) (native_slots p)\<rparr>)"

text \<open>
  The body of the \<^verbatim>\<open>forEach\<close> of \<^verbatim>\<open>interpretResponse\<close> for one entry of the slot list.
  \<open>None\<close> is a thrown \<^verbatim>\<open>TypeError\<close>; every statement that can throw stands before the one
  that writes to the page.
\<close>

definition interpretSlot :: "browser \<Rightarrow> server_request \<Rightarrow> jsval \<Rightarrow> page \<Rightarrow> (jsval \<times> page) option" where
  "interpretSlot w request slot p = do {
     found \<leftarrow> find_js (matches slot) (req_bidRequests request);
     let bidRequest = or_undefined found;
     bidId \<leftarrow> get bidRequest ''bidId'';
     cpm \<leftarrow> get slot ''cpm'';
     currency \<leftarrow> get slot ''currency'';
     ttl \<leftarrow> get slot ''ttl'';
     width \<leftarrow> get slot ''width'';
     height \<leftarrow> get slot ''height'';
     let bid = [(''requestId'', bidId), (''cpm'', cpm), (''currency'', currency),
                (''netRevenue'', Bool True), (''ttl'', if truthy ttl then ttl else Num 60),
                (''creativeId'', bidId), (''width'', width), (''height'', height)];
     native \<leftarrow> get slot ''native'';
     if truthy native then do {
       params \<leftarrow> get bidRequest ''params'';
       nativeCallback \<leftarrow> get params ''nativeCallback'';
       let (ad, p') = createNativeAd w bidId native nativeCallback p;
       Some (Obj (bid @ [(''ad'', Str ad)]), p')
     } else do {
       creative \<leftarrow> get slot ''creative'';
       Some (Obj (bid @ [(''ad'', creative)]), p)
     }
   }"

text \<open>
  \<^verbatim>\<open>body.slots.forEach(slot => { ...; bids.push(bid) })\<close>: an exception ends the loop and
  the call, and keeps what earlier entries wrote to the page.
\<close>

fun forEach_slot :: "browser \<Rightarrow> server_request \<Rightarrow> jsval list \<Rightarrow> jsval list \<Rightarrow> page \<Rightarrow> jsval list option \<times> page" where
  "forEach_slot w request [] bids p = (Some bids, p)"
| "forEach_slot w request (slot # slots) bids p =
     (case interpretSlot w request slot p of
        None \<Rightarrow> (None, p)
      | Some (bid, p') \<Rightarrow> forEach_slot w request slots (bids @ [bid]) p')"

text \<open>
  The part of \<^verbatim>\<open>interpretResponse\<close> after the delegation: lines 90 to 115.
\<close>

definition interpretLocally :: "browser \<Rightarrow> jsval \<Rightarrow> server_request \<Rightarrow> page \<Rightarrow> jsval list option \<times> page" where
  "interpretLocally w body request p =
     (if \<not> truthy body then (Some [], p)
      else case get body ''slots'' of
             None \<Rightarrow> (None, p)
           | Some slots \<Rightarrow>
               if truthy slots \<and> isArray slots
               then forEach_slot w request (elements slots) [] p
               else (Some [], p))"

text \<open>
  \<^verbatim>\<open>interpretResponse(response, request)\<close>. With the publisher tag available and an
  adapter registered for the request the delegate answers; its answer is any value.
\<close>

definition interpretResponse :: "browser \<Rightarrow> jsval \<Rightarrow> server_request \<Rightarrow> page \<Rightarrow> jsval option \<times> page" where
  "interpretResponse w response request p =
     (case response_body response of
        None \<Rightarrow> (None, p)
      | Some body \<Rightarrow>
          (case pubTag p of
             Some d \<Rightarrow>
               if d_GetAdapter d request then (Some (d_interpretResponse d body request), p)
               else (map_option Arr (fst (interpretLocally w body request p)),
                     snd (interpretLocally w body request p))
           | None \<Rightarrow>
               (map_option Arr (fst (interpretLocally w body request p)),
                snd (interpretLocally w body request p))))"

section \<open>The request builder\<close>

definition ADAPTER_VERSION :: nat where
  "ADAPTER_VERSION = 5"

definition CDB_ENDPOINT :: string where
  "CDB_ENDPOINT = ''//bidder.criteo.com/cdb''"

definition CRITEO_VENDOR_ID :: nat where
  "CRITEO_VENDOR_ID = 91"

definition INTEGRATION_MODES :: "(string \<times> nat) list" where
  "INTEGRATION_MODES = [(''amp'', 1)]"

definition PROFILE_ID :: nat where
  "PROFILE_ID = 207"

text \<open>
  \<^verbatim>\<open>INTEGRATION_MODES\<close> is an object literal, so \<^verbatim>\<open>key in INTEGRATION_MODES\<close> also holds
  for the members it inherits from \<^verbatim>\<open>Object.prototype\<close>. They are listed with the text
  that string concatenation gives each: the source text of a built-in function (its white
  space is the engine's) and \<^verbatim>\<open>[object Object]\<close> for the prototype itself.
\<close>

definition native_code :: "string \<Rightarrow> string" where
  "native_code name = ''function '' @ name @ ''() { [native code] }''"

definition Object_prototype :: "(string \<times> string) list" where
  "Object_prototype =
     [(''constructor'', native_code ''Object''),
      (''__defineGetter__'', native_code ''__defineGetter__''),
      (''__defineSetter__'', native_code ''__defineSetter__''),
      (''hasOwnProperty'', native_code ''hasOwnProperty''),
      (''__lookupGetter__'', native_code ''__lookupGetter__''),
      (''__lookupSetter__'', native_code ''__lookupSetter__''),
      (''isPrototypeOf'', native_code ''isPrototypeOf''),
      (''propertyIsEnumerable'', native_code ''propertyIsEnumerable''),
      (''toString'', native_code ''toString''),
      (''valueOf'', native_code ''valueOf''),
      (''__proto__'', ''[object Object]''),
      (''toLocaleString'', native_code ''toLocaleString'')]"

text \<open>
  \<^verbatim>\<open>key in INTEGRATION_MODES\<close> together with the text of \<^verbatim>\<open>INTEGRATION_MODES[key]\<close>:
  \<open>None\<close> when the key is not in the table.
\<close>

definition integration_mode_text :: "string \<Rightarrow> string option" where
  "integration_mode_text key =
     (case map_of INTEGRATION_MODES key of
        Some code \<Rightarrow> Some (show_nat code)
      | None \<Rightarrow> map_of Object_prototype key)"

record criteo_context =
  ctx_url :: string
  debug :: bool
  noLog :: bool
  integrationMode :: jsval

text \<open>
  The loop of \<^verbatim>\<open>buildContext\<close>:
  \<^verbatim>\<open>if (bidRequest.params.integrationMode) context.integrationMode = bidRequest.params.integrationMode\<close>
\<close>

fun forEach_mode :: "jsval list \<Rightarrow> jsval \<Rightarrow> jsval option" where
  "forEach_mode [] mode = Some mode"
| "forEach_mode (bidRequest # rest) mode = do {
     params \<leftarrow> get bidRequest ''params'';
     declared \<leftarrow> get params ''integrationMode'';
     forEach_mode rest (if truthy declared then declared else mode)
   }"

text \<open>
  \<^verbatim>\<open>buildContext(bidRequests)\<close>. \<^verbatim>\<open>utils.getTopWindowUrl\<close> and \<^verbatim>\<open>parse\<close> are not among
  the sources: the address and the parsed query come from the browser. The query is parsed
  first, at line 142, and an exception of \<^verbatim>\<open>parse\<close> ends the function there.
\<close>

definition buildContext :: "browser \<Rightarrow> jsval list \<Rightarrow> criteo_context option" where
  "buildContext w bidRequests = do {
     queryString \<leftarrow> search w;
     mode \<leftarrow> forEach_mode bidRequests Undefined;
     Some \<lparr>ctx_url = topWindowUrl w,
           debug = (map_of queryString ''pbt_debug'' = Some ''1''),
           noLog = (map_of queryString ''pbt_nolog'' = Some ''1''),
           integrationMode = mode\<rparr>
   }"

text \<open>\<^verbatim>\<open>buildCdbUrl(context)\<close>\<close>

definition buildCdbUrl :: "browser \<Rightarrow> criteo_context \<Rightarrow> string" where
  "buildCdbUrl w c =
     CDB_ENDPOINT @ ''?profileId='' @ show_nat PROFILE_ID
       @ ''&av='' @ show_nat ADAPTER_VERSION
       @ ''&cb='' @ show_nat (random w)
       @ (case integration_mode_text (toStr w (integrationMode c)) of
            Some code \<Rightarrow> ''&im='' @ code
          | None \<Rightarrow> [])
       @ (if debug c then ''&debug=1'' else [])
       @ (if noLog c then ''&nolog=1'' else [])"

text \<open>
  \<^verbatim>\<open>bidRequest.sizes.map(size => size[0] + 'x' + size[1])\<close>: only an array has
  \<^verbatim>\<open>map\<close>.
\<close>

fun map_sizes :: "browser \<Rightarrow> jsval list \<Rightarrow> jsval list option" where
  "map_sizes w [] = Some []"
| "map_sizes w (size' # rest) = do {
     a \<leftarrow> get_index size' 0;
     b \<leftarrow> get_index size' 1;
     strs \<leftarrow> map_sizes w rest;
     Some (Str (toStr w a @ ''x'' @ toStr w b) # strs)
   }"

definition sizes_of :: "browser \<Rightarrow> jsval \<Rightarrow> jsval option" where
  "sizes_of w sizes = (if isArray sizes then map_option Arr (map_sizes w (elements sizes)) else None)"

text \<open>
  The \<^verbatim>\<open>map\<close> of \<^verbatim>\<open>buildCdbRequest\<close> over the batch, with the variable \<^verbatim>\<open>networkId\<close> it
  assigns on the way: \<^verbatim>\<open>networkId = bidRequest.params.networkId || networkId\<close>.
\<close>

definition optional :: "string \<Rightarrow> jsval \<Rightarrow> jsval \<Rightarrow> (string \<times> jsval) list" where
  "optional key test v = (if truthy test then [(key, v)] else [])"

fun map_slots :: "browser \<Rightarrow> jsval list \<Rightarrow> jsval \<Rightarrow> (jsval list \<times> jsval) option" where
  "map_slots w [] networkId = Some ([], networkId)"
| "map_slots w (bidRequest # rest) networkId = do {
     params \<leftarrow> get bidRequest ''params'';
     declared \<leftarrow> get params ''networkId'';
     adUnitCode \<leftarrow> get bidRequest ''adUnitCode'';
     transactionId \<leftarrow> get bidRequest ''transactionId'';
     auctionId \<leftarrow> get bidRequest ''auctionId'';
     sizes \<leftarrow> get bidRequest ''sizes'';
     sizeStrings \<leftarrow> sizes_of w sizes;
     zoneId \<leftarrow> get params ''zoneId'';
     publisherSubId \<leftarrow> get params ''publisherSubId'';
     nativeCallback \<leftarrow> get params ''nativeCallback'';
     (slots, final) \<leftarrow> map_slots w rest (if truthy declared then declared else networkId);
     Some (Obj ([(''impid'', adUnitCode), (''transactionid'', transactionId),
                 (''auctionId'', auctionId), (''sizes'', sizeStrings)]
                @ optional ''zoneid'' zoneId zoneId
                @ optional ''publishersubid'' publisherSubId publisherSubId
                @ optional ''native'' nativeCallback (Bool True)) # slots,
           final)
   }"

text \<open>
  The consent block of \<^verbatim>\<open>buildCdbRequest\<close>. The vendor consents are read at the key
  \<^verbatim>\<open>CRITEO_VENDOR_ID.toString(10)\<close>, the text \<^verbatim>\<open>91\<close>: the property of that name of an
  object, the element 91 of an array, the character 91 of a string.
\<close>

definition consentGiven :: "jsval \<Rightarrow> bool option" where
  "consentGiven gdprConsent = do {
     vendorData \<leftarrow> get gdprConsent ''vendorData'';
     if \<not> truthy vendorData then Some False
     else do {
       vendorConsents \<leftarrow> get vendorData ''vendorConsents'';
       if \<not> truthy vendorConsents then Some False
       else do {
         given \<leftarrow> get_index vendorConsents CRITEO_VENDOR_ID;
         Some (truthy given)
       }
     }
   }"

definition gdpr_block :: "jsval \<Rightarrow> (string \<times> jsval) list option" where
  "gdpr_block bidderRequest =
     (if \<not> truthy bidderRequest then Some []
      else do {
        gdprConsent \<leftarrow> get bidderRequest ''gdprConsent'';
        if \<not> truthy gdprConsent then Some []
        else do {
          gdprApplies \<leftarrow> get gdprConsent ''gdprApplies'';
          consentString \<leftarrow> get gdprConsent ''consentString'';
          given \<leftarrow> consentGiven gdprConsent;
          Some [(''gdprConsent'',
                 Obj [(''gdprApplies'', Bool (truthy gdprApplies)),
                      (''consentData'', consentString),
                      (''consentGiven'', Bool given)])]
        }
      })"

text \<open>\<^verbatim>\<open>buildCdbRequest(context, bidRequests, bidderRequest)\<close>\<close>

definition buildCdbRequest :: "browser \<Rightarrow> criteo_context \<Rightarrow> jsval list \<Rightarrow> jsval \<Rightarrow> jsval option" where
  "buildCdbRequest w c bidRequests bidderRequest = do {
     (slots, networkId) \<leftarrow> map_slots w bidRequests Undefined;
     gdpr \<leftarrow> gdpr_block bidderRequest;
     Some (Obj ([(''publisher'',
                  Obj ([(''url'', Str (ctx_url c))] @ optional ''networkid'' networkId networkId)),
                 (''slots'', Arr slots)]
                @ gdpr))
   }"

text \<open>
  \<^verbatim>\<open>buildRequests(bidRequests, bidderRequest)\<close> returns a request or nothing
  (\<^verbatim>\<open>undefined\<close>), or throws (\<open>None\<close>). Its first conditional, \<open>prepare\<close>, runs when the
  publisher tag is not available: it sets \<^verbatim>\<open>window.Criteo.usePrebidEvents\<close>, tries the
  cached script and schedules the reload of the publisher tag after
  \<^verbatim>\<open>bidderRequest.timeout\<close>, whose read throws without a bidder request; \<open>False\<close> is that
  exception. Its \<^verbatim>\<open>else\<close> branch, \<open>build_locally\<close>, builds the URL and the payload without
  the delegate.
\<close>

datatype built = Nothing | Request server_request

definition prepare :: "browser \<Rightarrow> jsval \<Rightarrow> page \<Rightarrow> bool \<times> page" where
  "prepare w bidderRequest p =
     (if pubTag p = None then
        (let p1 = tryGetCriteoFastBid w (p\<lparr>usePrebidEvents := Some False\<rparr>)
         in case get bidderRequest ''timeout'' of
              None \<Rightarrow> (False, p1)
            | Some t \<Rightarrow> (True, p1\<lparr>timers := timers p1 @ [t]\<rparr>))
      else (True, p))"

definition build_locally :: "browser \<Rightarrow> jsval list \<Rightarrow> jsval \<Rightarrow> (jsval \<times> jsval) option" where
  "build_locally w bidRequests bidderRequest = do {
     c \<leftarrow> buildContext w bidRequests;
     let url = buildCdbUrl w c;
     payload \<leftarrow> buildCdbRequest w c bidRequests bidderRequest;
     Some (Str url, payload)
   }"

definition buildRequests :: "browser \<Rightarrow> jsval list \<Rightarrow> jsval \<Rightarrow> page \<Rightarrow> built option \<times> page" where
  "buildRequests w bidRequests bidderRequest p =
     (case prepare w bidderRequest p of
        (False, p') \<Rightarrow> (None, p')
      | (True, p') \<Rightarrow>
          (case (case pubTag p' of
                   Some d \<Rightarrow> Some (d_buildCdbUrl d bidRequests bidderRequest,
                                   d_buildCdbRequest d bidRequests bidderRequest)
                 | None \<Rightarrow> build_locally w bidRequests bidderRequest) of
             None \<Rightarrow> (None, p')
           | Some (url, payload) \<Rightarrow>
               (Some (if truthy payload
                      then Request \<lparr>req_method = ''POST'', req_url = url, req_data = payload,
                                    req_bidRequests = bidRequests\<rparr>
                      else Nothing),
                p')))"

section \<open>Notions of the specification\<close>

text \<open>
  The specification speaks of fields a value declares. \<open>dot v k\<close> is the field \<open>k\<close> of
  \<open>v\<close>, \<^verbatim>\<open>undefined\<close> where \<open>v\<close> has none, and a value declares a field when it has a
  value for it.
\<close>

definition dot :: "jsval \<Rightarrow> string \<Rightarrow> jsval" where
  "dot v k = or_undefined (get v k)"

definition declares :: "jsval \<Rightarrow> string \<Rightarrow> bool" where
  "declares v k = (dot v k \<noteq> Undefined)"

text \<open>
  Validity in the words of the specification: the params object exists and declares at
  least one of \<^verbatim>\<open>zoneId\<close> and \<^verbatim>\<open>networkId\<close>.
\<close>

definition valid_as_specified :: "jsval \<Rightarrow> bool" where
  "valid_as_specified bid =
     (dot bid ''params'' \<noteq> Undefined \<and>
      (declares (dot bid ''params'') ''zoneId'' \<or> declares (dot bid ''params'') ''networkId''))"

text \<open>
  The cached entry has a recognised hash header when its trimmed first line starts with
  \<^verbatim>\<open>// Hash: \<close>: the test of \<^verbatim>\<open>validateFastBid\<close>.
\<close>

definition has_hash_header :: "string \<Rightarrow> bool" where
  "has_hash_header fastBid =
     (substr (trim (substr fastBid 0 (indexOf fastBid newline))) 0 9 = ''// Hash: '')"

text \<open>
  The browsers in which the signature cannot be evaluated: there is no crypto object at all,
  the attempt throws (only \<^verbatim>\<open>webkitSubtle\<close> exists, or \<^verbatim>\<open>importKey\<close> throws), or the key
  cannot be imported.
\<close>

definition no_crypto :: "browser \<Rightarrow> bool" where
  "no_crypto w = (\<not> standardSubtle w \<and> \<not> msCrypto w)"

definition attempt_throws :: "browser \<Rightarrow> bool" where
  "attempt_throws w =
     ((standardSubtle w \<and> \<not> crypto_subtle w) \<or>
      ((standardSubtle w \<or> msCrypto w) \<and> importKey w = ImportThrows))"

definition import_rejected :: "browser \<Rightarrow> bool" where
  "import_rejected w =
     ((crypto_subtle w \<or> (\<not> standardSubtle w \<and> msCrypto w)) \<and> importKey w = ImportFailed)"

definition indeterminate :: "browser \<Rightarrow> bool" where
  "indeterminate w = (no_crypto w \<or> attempt_throws w \<or> import_rejected w)"

text \<open>
  An exception can also come later: the key is imported, and the continuation that runs
  then raises before it calls back, as when \<^verbatim>\<open>atob\<close> rejects the text after
  \<^verbatim>\<open>// Hash: \<close>. Nothing catches this exception, which is raised once
  \<^verbatim>\<open>validateFastBid\<close> has returned. The signature text and the signed body are the parts
  of the entry that \<^verbatim>\<open>validateFastBid\<close> hands to \<^verbatim>\<open>cryptoVerify\<close>.
\<close>

definition signature_of :: "string \<Rightarrow> string" where
  "signature_of fastBid = substr_from (trim (substr fastBid 0 (indexOf fastBid newline))) 9"

definition body_of :: "string \<Rightarrow> string" where
  "body_of fastBid = substr_from fastBid (indexOf fastBid newline + 1)"

definition raises_later :: "browser \<Rightarrow> string \<Rightarrow> bool" where
  "raises_later w fastBid =
     ((crypto_subtle w \<or> (\<not> standardSubtle w \<and> msCrypto w)) \<and> importKey w = KeyImported
      \<and> verify w (signature_of fastBid) (body_of fastBid) = VerifyThrows)"

subsection \<open>Notions for the response interpreter\<close>

text \<open>A value on which a property read throws.\<close>

definition nullish :: "jsval \<Rightarrow> bool" where
  "nullish v = (v = Undefined \<or> v = Null)"

text \<open>
  The local path of \<^verbatim>\<open>interpretResponse\<close>: no delegate is present, or it has no adapter
  for the request.
\<close>

definition local_path :: "page \<Rightarrow> server_request \<Rightarrow> bool" where
  "local_path p request =
     (case pubTag p of None \<Rightarrow> True | Some d \<Rightarrow> \<not> d_GetAdapter d request)"

text \<open>
  A malformed body: it is not an object, or its \<^verbatim>\<open>slots\<close> field is not an array.
\<close>

fun is_object :: "jsval \<Rightarrow> bool" where
  "is_object (Obj ps) = True"
| "is_object v = False"

definition malformed :: "jsval \<Rightarrow> bool" where
  "malformed body = (\<not> is_object body \<or> \<not> isArray (dot body ''slots''))"

text \<open>
  The correlation key in the words of the specification: a request of the batch matches a
  slot entry by placement id and by zone id, that is, its \<^verbatim>\<open>adUnitCode\<close> equals the
  \<^verbatim>\<open>impid\<close> of the entry and the \<^verbatim>\<open>zoneId\<close> of its params equals the \<^verbatim>\<open>zoneid\<close> of
  the entry. A request is usable when it and its params can be read.
\<close>

definition matched :: "jsval \<Rightarrow> jsval \<Rightarrow> bool" where
  "matched slot b =
     (strict_eq (dot b ''adUnitCode'') (dot slot ''impid'')
      \<and> strict_eq (dot (dot b ''params'') ''zoneId'') (dot slot ''zoneid''))"

definition usable :: "jsval \<Rightarrow> bool" where
  "usable b = (\<not> nullish b \<and> \<not> nullish (dot b ''params''))"

definition first_bidId :: "jsval \<Rightarrow> jsval list \<Rightarrow> jsval" where
  "first_bidId slot batch =
     (case List.find (matched slot) batch of None \<Rightarrow> Undefined | Some b \<Rightarrow> dot b ''bidId'')"

text \<open>
  The bid that the loop builds for a slot entry from the request \<open>b\<close> it found, with the
  markup \<open>ad\<close>.
\<close>

definition bid_of :: "jsval \<Rightarrow> jsval \<Rightarrow> jsval \<Rightarrow> jsval" where
  "bid_of b slot ad =
     Obj [(''requestId'', dot b ''bidId''), (''cpm'', dot slot ''cpm''),
          (''currency'', dot slot ''currency''), (''netRevenue'', Bool True),
          (''ttl'', if truthy (dot slot ''ttl'') then dot slot ''ttl'' else Num 60),
          (''creativeId'', dot b ''bidId''), (''width'', dot slot ''width''),
          (''height'', dot slot ''height''), (''ad'', ad)]"

definition produced :: "browser \<Rightarrow> server_request \<Rightarrow> jsval \<Rightarrow> jsval \<Rightarrow> bool" where
  "produced w request slot bid =
     (\<exists>b ad. find_js (matches slot) (req_bidRequests request) = Some (Some b)
            \<and> bid = bid_of b slot ad)"

text \<open>
  What a bid copies from its slot entry, with the time to live of the code: the entry's
  when that is truthy, 60 otherwise.
\<close>

definition copies :: "jsval \<Rightarrow> jsval \<Rightarrow> bool" where
  "copies slot bid =
     (dot bid ''cpm'' = dot slot ''cpm'' \<and> dot bid ''currency'' = dot slot ''currency''
      \<and> dot bid ''width'' = dot slot ''width'' \<and> dot bid ''height'' = dot slot ''height''
      \<and> dot bid ''netRevenue'' = Bool True
      \<and> dot bid ''ttl'' = (if truthy (dot slot ''ttl'') then dot slot ''ttl'' else Num 60))"

text \<open>
  The time to live in the words of the specification: the entry's, 60 when the entry has
  none.
\<close>

definition ttl_as_specified :: "jsval \<Rightarrow> jsval" where
  "ttl_as_specified slot = (if declares slot ''ttl'' then dot slot ''ttl'' else Num 60)"

subsection \<open>Notions for the request builder\<close>

text \<open>
  The value of a parameter in the last request of the batch whose value for it is truthy,
  \<^verbatim>\<open>undefined\<close> when there is none: what the loops of \<^verbatim>\<open>buildContext\<close> and
  \<^verbatim>\<open>buildCdbRequest\<close> keep.
\<close>

definition last_truthy :: "string \<Rightarrow> jsval list \<Rightarrow> jsval" where
  "last_truthy key bs =
     (case filter truthy (map (\<lambda>b. dot (dot b ''params'') key) bs) of
        [] \<Rightarrow> Undefined
      | v # vs \<Rightarrow> last (v # vs))"

text \<open>
  The value of a parameter in the last request of the batch that declares it, in the words
  of the specification.
\<close>

definition last_declared :: "string \<Rightarrow> jsval list \<Rightarrow> jsval" where
  "last_declared key bs =
     (case filter (\<lambda>b. declares (dot b ''params'') key) bs of
        [] \<Rightarrow> Undefined
      | b # rest \<Rightarrow> dot (dot (last (b # rest)) ''params'') key)"

text \<open>
  A request the builder can serialise: it and its params can be read, and its sizes are an
  array of values that can be indexed.
\<close>

definition well_formed :: "jsval \<Rightarrow> bool" where
  "well_formed b =
     (usable b \<and> isArray (dot b ''sizes'')
      \<and> (\<forall>s \<in> set (elements (dot b ''sizes'')). \<not> nullish s))"

text \<open>
  The whitelist of the specification is the table \<^verbatim>\<open>INTEGRATION_MODES\<close>. In its words
  the URL carries \<^verbatim>\<open>im=1\<close> when some request declares the mode \<^verbatim>\<open>amp\<close> and no request
  after it declares a mode outside the whitelist.
\<close>

definition whitelisted :: "jsval \<Rightarrow> bool" where
  "whitelisted v = (v \<in> set (map (\<lambda>e. Str (fst e)) INTEGRATION_MODES))"

fun im_as_specified :: "jsval list \<Rightarrow> bool" where
  "im_as_specified [] = False"
| "im_as_specified (b # bs) =
     ((dot (dot b ''params'') ''integrationMode'' = Str ''amp''
       \<and> list_all (\<lambda>b'. \<not> declares (dot b' ''params'') ''integrationMode''
                        \<or> whitelisted (dot (dot b' ''params'') ''integrationMode'')) bs)
      \<or> im_as_specified bs)"

text \<open>
  An automaton that reads a URL and reaches the state 4 once it has seen the text
  \<^verbatim>\<open>im=1\<close>; its state counts the characters of the text just read.
\<close>

fun step :: "nat \<Rightarrow> char \<Rightarrow> nat" where
  "step q c =
     (if q = 4 then 4
      else if c = CHR ''i'' then 1
      else if q = 1 \<and> c = CHR ''m'' then 2
      else if q = 2 \<and> c = CHR ''='' then 3
      else if q = 3 \<and> c = CHR ''1'' then 4
      else 0)"

definition is_digit :: "char \<Rightarrow> bool" where
  "is_digit c = (48 \<le> (of_char c :: nat) \<and> (of_char c :: nat) \<le> 57)"

subsection \<open>Concrete browsers, pages and batches\<close>

text \<open>
  A browser without any crypto object, in which scripts run quietly and numbers print as
  their integral part.
\<close>

definition bare_browser :: browser where
  "bare_browser =
     \<lparr>crypto_subtle = False, crypto_webkitSubtle = False, msCrypto = False,
      importKey = ImportFailed, verify = (\<lambda>h c. VerifyFailed), storageBlocked = False,
      evalScript = (\<lambda>s. \<lparr>installs = None, raises = False\<rparr>),
      topWindowUrl = ''http://publisher.test/'', search = Some [], random = 42,
      numberToString = (\<lambda>r. show_nat (nat \<lfloor>r\<rfloor>)), functionToString = (\<lambda>f. ''function () {}'')\<rparr>"

text \<open>A page without delegate, and the same page with a cached script.\<close>

definition blank :: page where
  "blank =
     \<lparr>storage = None, executed = [], console = [], pending = [], pubTag = None,
      usePrebidEvents = None, timers = [], native_slots = []\<rparr>"

definition cached :: "string \<Rightarrow> page" where
  "cached script = blank\<lparr>storage := Some script\<rparr>"

definition headerless_entry :: string where
  "headerless_entry = ''not a hash'' @ [newline] @ ''body''"

definition signed_entry :: string where
  "signed_entry = ''// Hash: c2ln'' @ [newline] @ ''body''"

text \<open>
  A browser with \<^verbatim>\<open>window.crypto.subtle\<close> that imports the key, and in which the
  continuation raises on a signature text that is not base64; an entry with such a text.
\<close>

definition subtle_browser :: browser where
  "subtle_browser =
     bare_browser\<lparr>crypto_subtle := True, importKey := KeyImported,
                    verify := (\<lambda>h c. if h = ''!!!'' then VerifyThrows else Verified False)\<rparr>"

definition undecodable_entry :: string where
  "undecodable_entry = ''// Hash: !!!'' @ [newline] @ ''body''"

text \<open>A page whose address \<^verbatim>\<open>parse\<close> cannot decode.\<close>

definition stray_percent_browser :: browser where
  "stray_percent_browser =
     bare_browser\<lparr>topWindowUrl := ''http://publisher.test/?q=100%'', search := None\<rparr>"

text \<open>
  The request and the slot entry of the example in the specification, the same entry with
  a time to live of 0, an entry for another placement, and the wrappers the framework puts
  around a batch and around a slot list.
\<close>

definition batch_of :: "jsval list \<Rightarrow> server_request" where
  "batch_of bs =
     \<lparr>req_method = ''POST'', req_url = Undefined, req_data = Undefined, req_bidRequests = bs\<rparr>"

definition response_of :: "jsval list \<Rightarrow> jsval" where
  "response_of slots = Obj [(''body'', Obj [(''slots'', Arr slots)])]"

definition div1_request :: jsval where
  "div1_request =
     Obj [(''adUnitCode'', Str ''div1''), (''bidId'', Str ''bid-1''),
          (''params'', Obj [(''zoneId'', Num 7)])]"

definition div1_slot :: jsval where
  "div1_slot =
     Obj [(''impid'', Str ''div1''), (''zoneid'', Num 7), (''cpm'', Num (3 / 2)),
          (''currency'', Str ''USD''), (''width'', Num 300), (''height'', Num 250)]"

definition zero_ttl_slot :: jsval where
  "zero_ttl_slot =
     Obj [(''impid'', Str ''div1''), (''zoneid'', Num 7), (''cpm'', Num (3 / 2)),
          (''currency'', Str ''USD''), (''ttl'', Num 0), (''width'', Num 300),
          (''height'', Num 250)]"

definition div2_slot :: jsval where
  "div2_slot =
     Obj [(''impid'', Str ''div2''), (''zoneid'', Num 7), (''cpm'', Num 2),
          (''currency'', Str ''USD''), (''width'', Num 728), (''height'', Num 90)]"

text \<open>
  A bid request of the framework for a placement with one size, and the context of the
  page of \<open>bare_browser\<close>.
\<close>

definition placement :: "string \<Rightarrow> (string \<times> jsval) list \<Rightarrow> jsval" where
  "placement code params =
     Obj [(''adUnitCode'', Str code), (''bidId'', Str (''bid-'' @ code)),
          (''transactionId'', Str (''t-'' @ code)), (''auctionId'', Str ''auction-1''),
          (''sizes'', Arr [Arr [Num 300, Num 250]]), (''params'', Obj params)]"

definition page_context :: criteo_context where
  "page_context =
     \<lparr>ctx_url = ''http://publisher.test/'', debug = False, noLog = False,
      integrationMode = Undefined\<rparr>"

section \<open>Properties\<close>

subsection \<open>The validity predicate\<close>

lemma get_truthy: "truthy v \<Longrightarrow> get v k = Some (dot v k)"
  by (cases v) (simp_all add: dot_def or_undefined_def)

lemma dot_falsy: "\<not> truthy v \<Longrightarrow> dot v k = Undefined"
  by (cases v) (simp_all add: dot_def or_undefined_def)

text \<open>
  C5, as the code has it. \<^verbatim>\<open>isBidRequestValid\<close> never throws and returns true exactly when
  the params of the bid are truthy and carry a truthy \<^verbatim>\<open>zoneId\<close> or a truthy
  \<^verbatim>\<open>networkId\<close>; it is false for \<^verbatim>\<open>{params: {}}\<close> and true for
  \<^verbatim>\<open>{params: {zoneId: 123}}\<close>.
\<close>

theorem isBidRequestValid_truthy:
  "isBidRequestValid bid =
     Some (truthy (dot bid ''params'') \<and>
           (truthy (dot (dot bid ''params'') ''zoneId'') \<or>
            truthy (dot (dot bid ''params'') ''networkId'')))
   \<and> isBidRequestValid (Obj [(''params'', Obj [])]) = Some False
   \<and> isBidRequestValid (Obj [(''params'', Obj [(''zoneId'', Num 123)])]) = Some True"
proof -
  have "isBidRequestValid bid =
     Some (truthy (dot bid ''params'') \<and>
           (truthy (dot (dot bid ''params'') ''zoneId'') \<or>
            truthy (dot (dot bid ''params'') ''networkId'')))"
  proof (cases "truthy bid")
    case False
    then show ?thesis by (simp add: isBidRequestValid_def dot_falsy)
  next
    case True
    then show ?thesis
      by (cases "truthy (dot bid ''params'')") (simp_all add: isBidRequestValid_def get_truthy)
  qed
  moreover have "isBidRequestValid (Obj [(''params'', Obj [])]) = Some False"
    by (simp add: isBidRequestValid_def)
  moreover have "isBidRequestValid (Obj [(''params'', Obj [(''zoneId'', Num 123)])]) = Some True"
    by (simp add: isBidRequestValid_def)
  ultimately show ?thesis by simp
qed

theorem isBidRequestValid_truthy_witness:
  "isBidRequestValid (Obj [(''params'', Obj [(''networkId'', Num 42)])]) = Some True"
  using isBidRequestValid_truthy [of "Obj [(''params'', Obj [(''networkId'', Num 42)])]"]
  by (simp add: dot_def or_undefined_def)

text \<open>
  C5, as the specification words it, fails for a bid whose params declare the zone id 0:
  the id is declared, and the bid is not valid.
\<close>

theorem zero_zoneId_declared_but_invalid:
  "valid_as_specified (Obj [(''params'', Obj [(''zoneId'', Num 0)])])
   \<and> isBidRequestValid (Obj [(''params'', Obj [(''zoneId'', Num 0)])]) = Some False"
  by (simp add: valid_as_specified_def declares_def dot_def or_undefined_def
        isBidRequestValid_def)

subsection \<open>The cached script\<close>

lemma eval_script_keeps:
  "storage (snd (eval_script w s p)) = storage p"
  "pending (snd (eval_script w s p)) = pending p"
  "executed (snd (eval_script w s p)) = executed p @ [s]"
  by (simp_all add: eval_script_def Let_def)

lemma warn_keeps:
  "storage (warn m p) = storage p"
  "pending (warn m p) = pending p"
  "executed (warn m p) = executed p"
  by (simp_all add: warn_def)

lemma call_undefined:
  "storage (snd (call w (UseOrEvict f) Undefined p)) = storage p"
  "pending (snd (call w (UseOrEvict f) Undefined p)) = pending p"
  "executed (snd (call w (UseOrEvict f) Undefined p)) = executed p @ [f]"
  by (simp_all add: strict_eq_def eval_script_keeps warn_keeps)

lemma call_false:
  "call w (UseOrEvict f) (Bool False) p =
     (Normal, (warn ''Invalid Criteo FastBid found'' p)\<lparr>storage := None\<rparr>)"
  by (simp add: strict_eq_def)

lemma validate_with_header:
  "has_hash_header f \<Longrightarrow>
   validateFastBid w f cb p =
     (case cryptoVerify w (substr_from (trim (substr f 0 (indexOf f newline))) 9)
             (substr_from f (indexOf f newline + 1)) cb p of
        (c2, p2) \<Rightarrow> if c2 = Abrupt
                    then call w cb Undefined (warn ''Failed to verify Criteo FastBid'' p2)
                    else (Normal, p2))"
  by (simp add: validateFastBid_def has_hash_header_def Let_def)

lemma cryptoVerify_no_crypto:
  "no_crypto w \<Longrightarrow> cryptoVerify w h t cb p = call w cb Undefined p"
  by (simp add: cryptoVerify_def no_crypto_def)

lemma cryptoVerify_throws:
  "attempt_throws w \<Longrightarrow> cryptoVerify w h t cb p = (Abrupt, p)"
  by (auto simp: cryptoVerify_def attempt_throws_def continuation_def)

lemma cryptoVerify_rejected:
  "import_rejected w \<Longrightarrow> cryptoVerify w h t cb p = (Normal, later cb Undefined p)"
  by (auto simp: cryptoVerify_def import_rejected_def continuation_def standardSubtle_def)

lemma settle_empty:
  "pending p = [] \<Longrightarrow> storage (settle w p) = storage p \<and> executed (settle w p) = executed p"
  by (simp add: settle_def)

lemma settle_one:
  "pending p = [] \<Longrightarrow>
   settle w (later cb v p) = snd (call w cb v (p\<lparr>pending := []\<rparr>))"
  by (simp add: settle_def later_def del: call.simps)

lemma cached_fields:
  "storage (cached s) = Some s" "pending (cached s) = []" "executed (cached s) = []"
  by (simp_all add: cached_def blank_def)

lemma bare_browser_storage: "\<not> storageBlocked bare_browser"
  by (simp add: bare_browser_def)

lemma validate_without_header:
  "\<not> has_hash_header f \<Longrightarrow>
   validateFastBid w f (UseOrEvict f) p =
     (case cryptoVerify w (substr_from (trim (substr f 0 (indexOf f newline))) 9)
             (substr_from f (indexOf f newline + 1)) (UseOrEvict f)
             ((warn ''Invalid Criteo FastBid found'' (warn ''No hash found in FastBid'' p))
                \<lparr>storage := None\<rparr>) of
        (c2, p2) \<Rightarrow> if c2 = Abrupt
                    then call w (UseOrEvict f) Undefined (warn ''Failed to verify Criteo FastBid'' p2)
                    else (Normal, p2))"
  by (simp add: validateFastBid_def has_hash_header_def Let_def call_false del: call.simps)

lemma verify_indet_sync:
  assumes "no_crypto w \<or> attempt_throws w"
  shows "storage (snd (case cryptoVerify w h t (UseOrEvict f) q of
                         (c2, p2) \<Rightarrow> if c2 = Abrupt
                           then call w (UseOrEvict f) Undefined (warn ''Failed to verify Criteo FastBid'' p2)
                           else (Normal, p2))) = storage q
       \<and> pending (snd (case cryptoVerify w h t (UseOrEvict f) q of
                         (c2, p2) \<Rightarrow> if c2 = Abrupt
                           then call w (UseOrEvict f) Undefined (warn ''Failed to verify Criteo FastBid'' p2)
                           else (Normal, p2))) = pending q
       \<and> f \<in> set (executed (snd (case cryptoVerify w h t (UseOrEvict f) q of
                         (c2, p2) \<Rightarrow> if c2 = Abrupt
                           then call w (UseOrEvict f) Undefined (warn ''Failed to verify Criteo FastBid'' p2)
                           else (Normal, p2))))"
proof -
  let ?cb = "UseOrEvict f"
  from assms show ?thesis
  proof
    assume nc: "no_crypto w"
    obtain c2 p2 where r: "call w ?cb Undefined q = (c2, p2)"
      by (cases "call w ?cb Undefined q")
    have p2: "storage p2 = storage q" "pending p2 = pending q" "executed p2 = executed q @ [f]"
      using call_undefined [of w f q] r by simp_all
    show ?thesis
      using p2 r call_undefined [of w f "warn ''Failed to verify Criteo FastBid'' p2"]
      by (simp add: cryptoVerify_no_crypto [OF nc] warn_keeps del: call.simps)
  next
    assume th: "attempt_throws w"
    show ?thesis
      using call_undefined [of w f "warn ''Failed to verify Criteo FastBid'' q"]
      by (simp add: cryptoVerify_throws [OF th] warn_keeps del: call.simps)
  qed
qed

lemma verify_indet_async:
  assumes "import_rejected w"
  shows "snd (case cryptoVerify w h t cb q of
                (c2, p2) \<Rightarrow> if c2 = Abrupt
                  then call w cb Undefined (warn ''Failed to verify Criteo FastBid'' p2)
                  else (Normal, p2)) = later cb Undefined q"
  by (simp add: cryptoVerify_rejected [OF assms])

lemma try_reads_entry:
  "storage p = Some f \<Longrightarrow> \<not> storageBlocked w \<Longrightarrow>
   tryGetCriteoFastBid w p = snd (validateFastBid w f (UseOrEvict f) p)"
  by (simp add: tryGetCriteoFastBid_def)

lemma cryptoVerify_raises_later:
  "raises_later w f \<Longrightarrow>
   cryptoVerify w (substr_from (trim (substr f 0 (indexOf f newline))) 9)
     (substr_from f (indexOf f newline + 1)) cb p = (Normal, p)"
  by (auto simp: cryptoVerify_def raises_later_def signature_of_def body_of_def
        continuation_def standardSubtle_def)

text \<open>
  C1, as the code has it, for a cached entry with a hash header. When the signature cannot
  be evaluated because there is no crypto object, because the call that starts the
  verification throws, or because the key cannot be imported, the entry stays in the cache
  and the script is executed: the callback gets \<^verbatim>\<open>undefined\<close>, which is not \<^verbatim>\<open>false\<close>.
  When the exception is raised later, by the continuation that runs once the key is
  imported, the callback is never called: the entry stays in the cache and nothing is
  executed.
\<close>

theorem indeterminate_entry_kept_and_executed:
  assumes "storage p = Some f" and "\<not> storageBlocked w" and "pending p = []"
    and "has_hash_header f"
  shows "(indeterminate w \<longrightarrow>
            storage (settle w (tryGetCriteoFastBid w p)) = Some f
          \<and> f \<in> set (executed (settle w (tryGetCriteoFastBid w p))))
       \<and> (raises_later w f \<longrightarrow>
            storage (settle w (tryGetCriteoFastBid w p)) = Some f
          \<and> executed (settle w (tryGetCriteoFastBid w p)) = executed p)"
proof -
  have undefined_reaches_callback:
    "storage (settle w (tryGetCriteoFastBid w p)) = Some f
       \<and> f \<in> set (executed (settle w (tryGetCriteoFastBid w p)))" if i: "indeterminate w"
  proof (cases "import_rejected w")
    case True
    have "settle w (tryGetCriteoFastBid w p) = snd (call w (UseOrEvict f) Undefined (p\<lparr>pending := []\<rparr>))"
      using assms
      by (simp add: try_reads_entry validate_with_header verify_indet_async [OF True] settle_one
            del: call.simps)
    then show ?thesis
      using call_undefined [of w f "p\<lparr>pending := []\<rparr>"] assms(1) by simp
  next
    case False
    then have "no_crypto w \<or> attempt_throws w"
      using i by (simp add: indeterminate_def)
    from verify_indet_sync [OF this] show ?thesis
      using assms by (simp add: try_reads_entry validate_with_header settle_empty)
  qed
  have callback_never_called:
    "storage (settle w (tryGetCriteoFastBid w p)) = Some f
       \<and> executed (settle w (tryGetCriteoFastBid w p)) = executed p" if r: "raises_later w f"
  proof -
    have "tryGetCriteoFastBid w p = p"
      using assms
      by (simp add: try_reads_entry validate_with_header cryptoVerify_raises_later [OF r])
    with assms show ?thesis by (simp add: settle_empty)
  qed
  from undefined_reaches_callback callback_never_called show ?thesis by blast
qed

lemma signed_entry_header: "has_hash_header signed_entry"
  by (simp add: has_hash_header_def signed_entry_def indexOf_def newline_def substr_def trim_def
        is_space_def)

lemma bare_browser_indeterminate: "indeterminate bare_browser"
  by (simp add: indeterminate_def no_crypto_def standardSubtle_def bare_browser_def)

lemma undecodable_entry_header: "has_hash_header undecodable_entry"
  by (simp add: has_hash_header_def undecodable_entry_def indexOf_def newline_def substr_def
        trim_def is_space_def)

lemma subtle_browser_storage: "\<not> storageBlocked subtle_browser"
  by (simp add: subtle_browser_def bare_browser_def)

lemma subtle_browser_raises: "raises_later subtle_browser undecodable_entry"
  by (simp add: raises_later_def subtle_browser_def bare_browser_def signature_of_def
        undecodable_entry_def indexOf_def newline_def substr_def substr_from_def trim_def
        is_space_def)

text \<open>
  In a browser without crypto the entry with a hash header is kept and executed; in a
  browser whose continuation raises on the signature text \<^verbatim>\<open>!!!\<close> the entry with that
  text is kept and nothing is executed.
\<close>

theorem indeterminate_entry_kept_and_executed_witness:
  "storage (settle bare_browser (tryGetCriteoFastBid bare_browser (cached signed_entry)))
     = Some signed_entry
   \<and> signed_entry \<in>
       set (executed (settle bare_browser (tryGetCriteoFastBid bare_browser (cached signed_entry))))
   \<and> storage (settle subtle_browser (tryGetCriteoFastBid subtle_browser (cached undecodable_entry)))
     = Some undecodable_entry
   \<and> executed (settle subtle_browser (tryGetCriteoFastBid subtle_browser (cached undecodable_entry)))
     = []"
  using indeterminate_entry_kept_and_executed
          [OF cached_fields(1) bare_browser_storage cached_fields(2) signed_entry_header]
        indeterminate_entry_kept_and_executed
          [OF cached_fields(1) subtle_browser_storage cached_fields(2) undecodable_entry_header]
        bare_browser_indeterminate subtle_browser_raises
  by (simp add: cached_fields(3))

text \<open>
  C1, as the specification words it, fails in a browser without crypto: the entry with a
  hash header is executed.
\<close>

theorem indeterminate_entry_not_skipped:
  "no_crypto bare_browser
   \<and> storage (cached signed_entry) = Some signed_entry
   \<and> executed (cached signed_entry) = []
   \<and> executed (tryGetCriteoFastBid bare_browser (cached signed_entry)) = [signed_entry]"
proof -
  have "executed (snd (call bare_browser (UseOrEvict signed_entry) Undefined (cached signed_entry)))
          = [signed_entry]"
    by (simp add: call_undefined cached_fields del: call.simps)
  moreover have "fst (call bare_browser (UseOrEvict signed_entry) Undefined (cached signed_entry))
          = Normal"
    by (simp add: strict_eq_def eval_script_def Let_def bare_browser_def)
  moreover have "no_crypto bare_browser"
    by (simp add: no_crypto_def standardSubtle_def bare_browser_def)
  ultimately show ?thesis
    by (simp add: try_reads_entry validate_with_header signed_entry_header cryptoVerify_no_crypto
          cached_fields bare_browser_storage case_prod_beta del: call.simps)
qed

text \<open>
  C3. For an entry without hash header \<^verbatim>\<open>validateFastBid\<close> reports \<^verbatim>\<open>false\<close> and the
  entry is evicted, but the function does not return there: where the signature cannot be
  evaluated the callback is called again with \<^verbatim>\<open>undefined\<close> and the evicted script is
  executed.
\<close>

theorem headerless_entry_evicted_and_executed:
  assumes "storage p = Some f" and "\<not> storageBlocked w" and "pending p = []"
    and "\<not> has_hash_header f" and "indeterminate w"
  shows "storage (settle w (tryGetCriteoFastBid w p)) = None
       \<and> f \<in> set (executed (settle w (tryGetCriteoFastBid w p)))"
proof (cases "import_rejected w")
  case True
  let ?q = "(warn ''Invalid Criteo FastBid found'' (warn ''No hash found in FastBid'' p))
              \<lparr>storage := None\<rparr>"
  have q: "pending ?q = []" using assms(3) by (simp add: warn_keeps)
  have "settle w (tryGetCriteoFastBid w p) = snd (call w (UseOrEvict f) Undefined (?q\<lparr>pending := []\<rparr>))"
    using assms(1-4) q
    by (simp add: try_reads_entry validate_without_header verify_indet_async [OF True] settle_one
          del: call.simps)
  then show ?thesis
    using call_undefined [of w f "?q\<lparr>pending := []\<rparr>"] by simp
next
  case False
  let ?q = "(warn ''Invalid Criteo FastBid found'' (warn ''No hash found in FastBid'' p))
              \<lparr>storage := None\<rparr>"
  from False have "no_crypto w \<or> attempt_throws w"
    using assms(5) by (simp add: indeterminate_def)
  from verify_indet_sync [OF this, where f = f and q = ?q] show ?thesis
    using assms(1-4) by (simp add: try_reads_entry validate_without_header settle_empty warn_keeps)
qed

lemma headerless_entry_header: "\<not> has_hash_header headerless_entry"
  by (simp add: has_hash_header_def headerless_entry_def indexOf_def newline_def substr_def
        trim_def is_space_def)

theorem headerless_entry_evicted_and_executed_witness:
  "storage (settle bare_browser (tryGetCriteoFastBid bare_browser (cached headerless_entry)))
     = None
   \<and> headerless_entry \<in>
       set (executed (settle bare_browser (tryGetCriteoFastBid bare_browser (cached headerless_entry))))"
  by (rule headerless_entry_evicted_and_executed
        [OF cached_fields(1) bare_browser_storage cached_fields(2) headerless_entry_header
          bare_browser_indeterminate])


subsection \<open>The response interpreter\<close>

lemma get_None: "get v k = None \<longleftrightarrow> nullish v"
  by (cases v) (simp_all add: nullish_def)

lemma get_Some: "\<not> nullish v \<Longrightarrow> get v k = Some (dot v k)"
  by (cases v) (simp_all add: nullish_def dot_def or_undefined_def)

lemma get_SomeD: "get v k = Some x \<Longrightarrow> \<not> nullish v \<and> x = dot v k"
  by (cases v) (auto simp: nullish_def dot_def or_undefined_def)

lemma interpretLocally_malformed:
  "malformed body \<Longrightarrow> interpretLocally w body request p = (Some [], p)"
proof (cases "truthy body")
  case False
  then show ?thesis by (simp add: interpretLocally_def)
next
  case True
  assume m: "malformed body"
  have "\<not> (truthy (dot body ''slots'') \<and> isArray (dot body ''slots''))"
    using m by (cases body) (auto simp: malformed_def dot_def or_undefined_def)
  with True show ?thesis
    by (auto simp: interpretLocally_def get_truthy)
qed

lemma interpretResponse_local:
  "response_body response = Some body \<Longrightarrow> local_path p request \<Longrightarrow>
   interpretResponse w response request p =
     (map_option Arr (fst (interpretLocally w body request p)),
      snd (interpretLocally w body request p))"
  by (simp add: interpretResponse_def local_path_def split: option.splits)

text \<open>
  A response that is \<^verbatim>\<open>undefined\<close> or \<^verbatim>\<open>null\<close> has no body: reading
  \<^verbatim>\<open>response.body\<close> throws. The framework passes an object.
\<close>

lemma response_body_None: "response_body response = None \<longleftrightarrow> nullish response"
  by (cases response) (simp_all add: response_body_def nullish_def)

text \<open>
  C9. Whenever a body can be taken from the response (\<^verbatim>\<open>response.body || response\<close>) and
  that body is malformed, being no object or having a \<^verbatim>\<open>slots\<close> field that is no array,
  the local path of \<^verbatim>\<open>interpretResponse\<close> returns the empty list, does not throw and
  leaves the page as it was.
\<close>

theorem malformed_body_gives_no_bids:
  assumes "response_body response = Some body" and "local_path p request"
    and "malformed body"
  shows "interpretResponse w response request p = (Some (Arr []), p)"
  by (simp add: interpretResponse_local [OF assms(1,2)] interpretLocally_malformed [OF assms(3)])

lemma blank_local: "local_path blank request"
  by (simp add: local_path_def blank_def)

theorem malformed_body_gives_no_bids_witness:
  "interpretResponse bare_browser (Obj [(''body'', Str ''Service Unavailable'')]) (batch_of [div1_request]) blank
     = (Some (Arr []), blank)"
proof -
  have 1: "response_body (Obj [(''body'', Str ''Service Unavailable'')]) = Some (Str ''Service Unavailable'')"
    by (simp add: response_body_def)
  have 2: "malformed (Str ''Service Unavailable'')"
    by (simp add: malformed_def)
  show ?thesis by (rule malformed_body_gives_no_bids [OF 1 blank_local 2])
qed

lemma find_js_SomeD:
  "find_js f bs = Some (Some b) \<Longrightarrow> b \<in> set bs \<and> f b = Some True \<and> List.find (\<lambda>x. f x = Some True) bs = Some b"
  by (induction bs) (auto simp: bind_eq_Some_conv split: if_splits)

lemma interpretSlot_SomeD:
  assumes "interpretSlot w request slot p = Some (bid, p')"
  shows "\<exists>b ad. find_js (matches slot) (req_bidRequests request) = Some (Some b)
              \<and> bid = bid_of b slot ad"
proof -
  from assms obtain found where f: "find_js (matches slot) (req_bidRequests request) = Some found"
    and r: "get (or_undefined found) ''bidId'' \<noteq> None"
    by (auto simp: interpretSlot_def Let_def bind_eq_Some_conv)
  from r obtain b where b: "found = Some b"
    by (cases found) (simp_all add: or_undefined_def)
  have nb: "\<not> nullish b" using r b by (simp add: or_undefined_def get_None)
  have ns: "\<not> nullish slot"
    using assms f b nb
    by (auto simp: interpretSlot_def bind_eq_Some_conv or_undefined_def Let_def dest: get_SomeD)
  show ?thesis
    using assms f b nb ns
    by (auto simp: interpretSlot_def or_undefined_def get_Some Let_def bid_of_def
          bind_eq_Some_conv createNativeAd_def split: if_splits)
qed

lemma forEach_slot_SomeD:
  "forEach_slot w request slots acc p = (Some bids, p') \<Longrightarrow>
   \<exists>new. bids = acc @ new \<and> list_all2 (produced w request) slots new"
proof (induction slots arbitrary: acc p)
  case Nil
  then show ?case by simp
next
  case (Cons slot slots)
  from Cons.prems obtain bid q where s: "interpretSlot w request slot p = Some (bid, q)"
    and r: "forEach_slot w request slots (acc @ [bid]) q = (Some bids, p')"
    by (auto split: option.splits)
  from Cons.IH [OF r] obtain new where n: "bids = (acc @ [bid]) @ new"
    and a: "list_all2 (produced w request) slots new" by blast
  from interpretSlot_SomeD [OF s] have "produced w request slot bid"
    by (simp add: produced_def)
  with n a show ?case by simp
qed

lemma interpretLocally_SomeD:
  assumes "interpretLocally w body request p = (Some bids, p')"
  shows "list_all2 (produced w request) (elements (dot body ''slots'')) bids"
proof (cases "truthy body \<and> truthy (dot body ''slots'') \<and> isArray (dot body ''slots'')")
  case True
  with assms have "forEach_slot w request (elements (dot body ''slots'')) [] p = (Some bids, p')"
    by (simp add: interpretLocally_def get_truthy)
  from forEach_slot_SomeD [OF this] show ?thesis by simp
next
  case False
  have e: "elements (dot body ''slots'') = []"
  proof (cases "isArray (dot body ''slots'')")
    case True
    with False have "\<not> truthy body" by (cases "dot body ''slots''") auto
    then show ?thesis by (simp add: dot_falsy)
  next
    case False
    then show ?thesis by (cases "dot body ''slots''") auto
  qed
  from False assms have "bids = []"
    by (auto simp: interpretLocally_def get_truthy split: if_splits)
  with e show ?thesis by simp
qed

lemma interpretResponse_SomeD:
  assumes "response_body response = Some body" and "local_path p request"
    and "interpretResponse w response request p = (Some (Arr bids), p')"
  shows "list_all2 (produced w request) (elements (dot body ''slots'')) bids"
proof -
  from assms(3) have "fst (interpretLocally w body request p) = Some bids"
    by (auto simp: interpretResponse_local [OF assms(1,2)])
  then have "interpretLocally w body request p = (Some bids, snd (interpretLocally w body request p))"
    by (metis prod.collapse)
  from interpretLocally_SomeD [OF this] show ?thesis .
qed

lemma dot_bid_of:
  "dot (bid_of b slot ad) ''requestId'' = dot b ''bidId''"
  "dot (bid_of b slot ad) ''creativeId'' = dot b ''bidId''"
  "dot (bid_of b slot ad) ''cpm'' = dot slot ''cpm''"
  "dot (bid_of b slot ad) ''currency'' = dot slot ''currency''"
  "dot (bid_of b slot ad) ''width'' = dot slot ''width''"
  "dot (bid_of b slot ad) ''height'' = dot slot ''height''"
  "dot (bid_of b slot ad) ''netRevenue'' = Bool True"
  "dot (bid_of b slot ad) ''ttl'' = (if truthy (dot slot ''ttl'') then dot slot ''ttl'' else Num 60)"
  by (simp_all add: bid_of_def dot_def or_undefined_def)

lemma response_of_body: "response_body (response_of slots) = Some (Obj [(''slots'', Arr slots)])"
  by (simp add: response_body_def response_of_def)

lemma produced_copies: "produced w request slot bid \<Longrightarrow> copies slot bid"
  by (auto simp: produced_def copies_def dot_bid_of)

lemma div1_bids:
  "interpretResponse bare_browser (response_of [div1_slot]) (batch_of [div1_request]) blank =
     (Some (Arr [Obj [(''requestId'', Str ''bid-1''), (''cpm'', Num (3 / 2)),
                     (''currency'', Str ''USD''), (''netRevenue'', Bool True),
                     (''ttl'', Num 60), (''creativeId'', Str ''bid-1''),
                     (''width'', Num 300), (''height'', Num 250), (''ad'', Undefined)]]),
      blank)"
  by (simp add: interpretResponse_def response_body_def response_of_def blank_def
        interpretLocally_def interpretSlot_def batch_of_def div1_request_def div1_slot_def
        matches_def strict_eq_def or_undefined_def)


text \<open>
  C10. Every bid that the local path of \<^verbatim>\<open>interpretResponse\<close> returns has a creative id
  equal to its request id: both are the \<^verbatim>\<open>bidId\<close> of one request of the batch.
\<close>

theorem creativeId_is_requestId:
  assumes "response_body response = Some body" and "local_path p request"
    and "interpretResponse w response request p = (Some (Arr bids), p')"
    and "bid \<in> set bids"
  shows "dot bid ''creativeId'' = dot bid ''requestId''
       \<and> (\<exists>b \<in> set (req_bidRequests request).
             dot bid ''requestId'' = dot b ''bidId'' \<and> dot bid ''creativeId'' = dot b ''bidId'')"
proof -
  from interpretResponse_SomeD [OF assms(1-3)] assms(4)
  obtain slot where "produced w request slot bid"
    by (auto simp: in_set_conv_nth list_all2_conv_all_nth)
  then obtain b ad where f: "find_js (matches slot) (req_bidRequests request) = Some (Some b)"
    and bid: "bid = bid_of b slot ad"
    by (auto simp: produced_def)
  from find_js_SomeD [OF f] have "b \<in> set (req_bidRequests request)" by simp
  then show ?thesis by (auto simp: bid dot_bid_of)
qed

theorem creativeId_is_requestId_witness:
  "dot (Obj [(''requestId'', Str ''bid-1''), (''cpm'', Num (3 / 2)),
                     (''currency'', Str ''USD''), (''netRevenue'', Bool True),
                     (''ttl'', Num 60), (''creativeId'', Str ''bid-1''),
                     (''width'', Num 300), (''height'', Num 250), (''ad'', Undefined)]) ''creativeId''
    = Str ''bid-1''"
  using creativeId_is_requestId [OF response_of_body blank_local div1_bids, of
      "Obj [(''requestId'', Str ''bid-1''), (''cpm'', Num (3 / 2)),
                     (''currency'', Str ''USD''), (''netRevenue'', Bool True),
                     (''ttl'', Num 60), (''creativeId'', Str ''bid-1''),
                     (''width'', Num 300), (''height'', Num 250), (''ad'', Undefined)]"]
  by (simp add: dot_def or_undefined_def)

text \<open>
  C8, as the code has it. The bids that the local path returns stand one for one, in order,
  for the slot entries, and each copies the price, the currency, the width and the height
  of its entry, has a net revenue flag that is true, and has the time to live of the entry
  when that is truthy and 60 otherwise.
\<close>

theorem bid_copies_slot:
  assumes "response_body response = Some body" and "local_path p request"
    and "interpretResponse w response request p = (Some (Arr bids), p')"
  shows "list_all2 copies (elements (dot body ''slots'')) bids"
  using interpretResponse_SomeD [OF assms] produced_copies
  by (rule list_all2_mono)


text \<open>
  The example of the specification: one bid, with the price 1.5 and the time to live 60.
\<close>

theorem bid_copies_slot_witness:
  "\<exists>bid. fst (interpretResponse bare_browser (response_of [div1_slot]) (batch_of [div1_request]) blank)
           = Some (Arr [bid])
         \<and> dot bid ''cpm'' = Num (3 / 2) \<and> dot bid ''ttl'' = Num 60
         \<and> dot bid ''netRevenue'' = Bool True"
proof -
  let ?bid = "Obj [(''requestId'', Str ''bid-1''), (''cpm'', Num (3 / 2)),
                   (''currency'', Str ''USD''), (''netRevenue'', Bool True),
                   (''ttl'', Num 60), (''creativeId'', Str ''bid-1''),
                   (''width'', Num 300), (''height'', Num 250), (''ad'', Undefined)]"
  have "list_all2 copies (elements (dot (Obj [(''slots'', Arr [div1_slot])]) ''slots'')) [?bid]"
    by (rule bid_copies_slot [OF response_of_body blank_local div1_bids])
  then have "copies div1_slot ?bid"
    by (simp add: dot_def or_undefined_def)
  then have "dot ?bid ''cpm'' = Num (3 / 2) \<and> dot ?bid ''ttl'' = Num 60
      \<and> dot ?bid ''netRevenue'' = Bool True"
    by (simp add: copies_def) (simp add: div1_slot_def dot_def or_undefined_def)
  then show ?thesis
    by (simp add: div1_bids)
qed

text \<open>
  C8, as the specification words it, fails for an entry whose time to live is 0: it is not
  absent, and the bid gets 60.
\<close>

theorem zero_ttl_replaced:
  "declares zero_ttl_slot ''ttl''
   \<and> ttl_as_specified zero_ttl_slot = Num 0
   \<and> fst (interpretResponse bare_browser (response_of [zero_ttl_slot]) (batch_of [div1_request]) blank)
       = Some (Arr [Obj [(''requestId'', Str ''bid-1''), (''cpm'', Num (3 / 2)),
                     (''currency'', Str ''USD''), (''netRevenue'', Bool True),
                     (''ttl'', Num 60), (''creativeId'', Str ''bid-1''),
                     (''width'', Num 300), (''height'', Num 250), (''ad'', Undefined)]])"
  by (simp add: interpretResponse_def response_body_def response_of_def blank_def
        interpretLocally_def interpretSlot_def batch_of_def div1_request_def zero_ttl_slot_def
        matches_def strict_eq_def or_undefined_def ttl_as_specified_def declares_def dot_def)

text \<open>
  On a usable request and a slot entry that can be read, the predicate of \<^verbatim>\<open>find\<close>
  decides the correlation key of the specification.
\<close>

lemma matches_matched:
  "usable b \<Longrightarrow> \<not> nullish slot \<Longrightarrow> matches slot b = Some (matched slot b)"
  by (auto simp: matches_def matched_def usable_def get_Some)

lemma find_js_usable:
  "\<forall>b\<in>set bs. usable b \<Longrightarrow> \<not> nullish slot \<Longrightarrow>
   find_js (matches slot) bs = Some (List.find (matched slot) bs)"
proof (induction bs)
  case Nil
  then show ?case by simp
next
  case (Cons b bs)
  then have "matches slot b = Some (matched slot b)" by (simp add: matches_matched)
  with Cons show ?case by simp
qed

lemma interpretSlot_nullish:
  assumes "nullish slot"
  shows "interpretSlot w request slot p = None"
proof (cases "find_js (matches slot) (req_bidRequests request)")
  case None
  then show ?thesis by (simp add: interpretSlot_def)
next
  case (Some found)
  from assms have g: "get slot ''cpm'' = None" by (simp add: get_None)
  show ?thesis
    by (cases "get (or_undefined found) ''bidId''") (simp_all add: interpretSlot_def Some g)
qed

lemma interpretSlot_unmatched:
  assumes "\<forall>b\<in>set (req_bidRequests request). usable b"
    and "nullish slot \<or> List.find (matched slot) (req_bidRequests request) = None"
  shows "interpretSlot w request slot p = None"
proof (cases "nullish slot")
  case True
  then show ?thesis by (rule interpretSlot_nullish)
next
  case False
  with assms(2) have "List.find (matched slot) (req_bidRequests request) = None" by simp
  with find_js_usable [OF assms(1) False]
  have "find_js (matches slot) (req_bidRequests request) = Some None" by simp
  then show ?thesis by (simp add: interpretSlot_def or_undefined_def)
qed

lemma interpretSlot_matched:
  assumes "\<forall>b\<in>set (req_bidRequests request). usable b" and ns: "\<not> nullish slot"
    and "List.find (matched slot) (req_bidRequests request) = Some b"
  shows "\<exists>ad p'. interpretSlot w request slot p = Some (bid_of b slot ad, p')"
proof -
  from assms(3) have bin: "b \<in> set (req_bidRequests request)"
    by (auto simp: find_Some_iff in_set_conv_nth)
  from bin assms(1) have u: "\<not> nullish b" "\<not> nullish (dot b ''params'')"
    by (auto simp: usable_def)
  have f: "find_js (matches slot) (req_bidRequests request) = Some (Some b)"
    using find_js_usable [OF assms(1) ns] assms(3) by simp
  show ?thesis
    by (cases "truthy (dot slot ''native'')")
       (simp_all add: interpretSlot_def f or_undefined_def get_Some ns u Let_def bid_of_def
          createNativeAd_def)
qed

lemma forEach_all_matched:
  assumes "\<forall>b\<in>set (req_bidRequests request). usable b"
  shows "\<forall>slot\<in>set slots. \<not> nullish slot \<and> (\<exists>b\<in>set (req_bidRequests request). matched slot b) \<Longrightarrow>
   \<exists>bids p'. forEach_slot w request slots acc p = (Some (acc @ bids), p')
      \<and> map (\<lambda>bid. dot bid ''requestId'') bids
          = map (\<lambda>slot. first_bidId slot (req_bidRequests request)) slots"
proof (induction slots arbitrary: acc p)
  case Nil
  then show ?case by simp
next
  case (Cons slot slots)
  from Cons.prems have ns: "\<not> nullish slot" by simp
  from Cons.prems obtain b where b: "List.find (matched slot) (req_bidRequests request) = Some b"
    by (cases "List.find (matched slot) (req_bidRequests request)") (auto simp: find_None_iff)
  from interpretSlot_matched [OF assms ns b] obtain ad q
    where s: "interpretSlot w request slot p = Some (bid_of b slot ad, q)" by blast
  from Cons.prems
  have "\<forall>slot\<in>set slots. \<not> nullish slot \<and> (\<exists>b\<in>set (req_bidRequests request). matched slot b)"
    by simp
  from Cons.IH [OF this, of "acc @ [bid_of b slot ad]" q] obtain bids p'
    where r: "forEach_slot w request slots (acc @ [bid_of b slot ad]) q
                = (Some ((acc @ [bid_of b slot ad]) @ bids), p')"
      and ids: "map (\<lambda>bid. dot bid ''requestId'') bids
          = map (\<lambda>slot. first_bidId slot (req_bidRequests request)) slots" by blast
  have "forEach_slot w request (slot # slots) acc p = (Some (acc @ (bid_of b slot ad # bids)), p')"
    using s r by simp
  moreover have "map (\<lambda>bid. dot bid ''requestId'') (bid_of b slot ad # bids)
          = map (\<lambda>slot. first_bidId slot (req_bidRequests request)) (slot # slots)"
    using ids b by (simp add: first_bidId_def dot_bid_of)
  ultimately show ?case by blast
qed

lemma forEach_unmatched:
  assumes "\<forall>b\<in>set (req_bidRequests request). usable b"
  shows "\<not> (\<forall>slot\<in>set slots. \<not> nullish slot \<and> (\<exists>b\<in>set (req_bidRequests request). matched slot b)) \<Longrightarrow>
   fst (forEach_slot w request slots acc p) = None"
proof (induction slots arbitrary: acc p)
  case Nil
  then show ?case by simp
next
  case (Cons slot slots)
  show ?case
  proof (cases "interpretSlot w request slot p")
    case None
    then show ?thesis by simp
  next
    case (Some r)
    obtain bid q where r: "r = (bid, q)" by (cases r)
    have "\<not> (nullish slot \<or> List.find (matched slot) (req_bidRequests request) = None)"
      using interpretSlot_unmatched [OF assms, of slot w p] Some by auto
    then have "\<not> nullish slot \<and> (\<exists>b\<in>set (req_bidRequests request). matched slot b)"
      by (auto simp: find_None_iff)
    with Cons.prems
    have "\<not> (\<forall>slot\<in>set slots. \<not> nullish slot \<and> (\<exists>b\<in>set (req_bidRequests request). matched slot b))"
      by simp
    from Cons.IH [OF this] show ?thesis using Some r by simp
  qed
qed

lemma interpretLocally_slots:
  "dot body ''slots'' = Arr slots \<Longrightarrow>
   interpretLocally w body request p = forEach_slot w request slots [] p"
  by (cases body) (simp_all add: interpretLocally_def dot_def or_undefined_def)

text \<open>
  C2, as the code has it, for a batch of usable requests and a body whose \<^verbatim>\<open>slots\<close> is an
  array. When every entry can be read and is matched by a request of the batch, by
  placement id and by zone id, the local path returns one bid per entry, in order, whose
  request id is the \<^verbatim>\<open>bidId\<close> of the first request that matches the entry. When some entry
  is \<^verbatim>\<open>null\<close> or \<^verbatim>\<open>undefined\<close>, or is matched by no request, the call throws and
  returns no bid at all.
\<close>

theorem all_matched_or_thrown:
  assumes "response_body response = Some body" and "local_path p request"
    and "dot body ''slots'' = Arr slots"
    and "\<forall>b\<in>set (req_bidRequests request). usable b"
  shows "if \<forall>slot\<in>set slots.
              \<not> nullish slot \<and> (\<exists>b\<in>set (req_bidRequests request). matched slot b)
         then \<exists>bids. fst (interpretResponse w response request p) = Some (Arr bids)
                \<and> map (\<lambda>bid. dot bid ''requestId'') bids
                    = map (\<lambda>slot. first_bidId slot (req_bidRequests request)) slots
         else fst (interpretResponse w response request p) = None"
proof (cases "\<forall>slot\<in>set slots.
                \<not> nullish slot \<and> (\<exists>b\<in>set (req_bidRequests request). matched slot b)")
  case True
  from forEach_all_matched [OF assms(4) True, of w "[]" p] show ?thesis
    using True
    by (auto simp: interpretResponse_local [OF assms(1,2)] interpretLocally_slots [OF assms(3)])
next
  case False
  from forEach_unmatched [OF assms(4) False, of w "[]" p] show ?thesis
    using False
    by (simp add: interpretResponse_local [OF assms(1,2)] interpretLocally_slots [OF assms(3)])
qed

lemma div1_matched: "matched div1_slot div1_request"
  by (simp add: matched_def div1_slot_def div1_request_def strict_eq_def dot_def
        or_undefined_def)

lemma div1_slot_read: "\<not> nullish div1_slot"
  by (simp add: nullish_def div1_slot_def)

lemma div1_usable: "usable div1_request"
  by (simp add: usable_def nullish_def div1_request_def dot_def or_undefined_def)

theorem all_matched_or_thrown_witness:
  "\<exists>bids. fst (interpretResponse bare_browser (response_of [div1_slot, div1_slot])
                 (batch_of [div1_request]) blank) = Some (Arr bids)
         \<and> map (\<lambda>bid. dot bid ''requestId'') bids = [Str ''bid-1'', Str ''bid-1'']"
proof -
  have 3: "dot (Obj [(''slots'', Arr [div1_slot, div1_slot])]) ''slots'' = Arr [div1_slot, div1_slot]"
    by (simp add: dot_def or_undefined_def)
  have 4: "\<forall>b\<in>set (req_bidRequests (batch_of [div1_request])). usable b"
    by (simp add: batch_of_def div1_usable)
  have 5: "first_bidId div1_slot [div1_request] = Str ''bid-1''"
    by (simp add: first_bidId_def div1_matched) (simp add: div1_request_def dot_def or_undefined_def)
  from all_matched_or_thrown [OF response_of_body blank_local 3 4, of bare_browser]
  show ?thesis
    using div1_matched div1_slot_read 5 by (simp add: batch_of_def)
qed

text \<open>
  C2, as the specification words it, fails for a response with a matched entry followed by
  an unmatched one: nothing is dropped, the call throws.
\<close>

theorem unmatched_slot_throws:
  "matched div1_slot div1_request \<and> \<not> matched div2_slot div1_request
   \<and> fst (interpretResponse bare_browser (response_of [div1_slot, div2_slot])
            (batch_of [div1_request]) blank) = None"
  by (simp add: interpretResponse_def response_body_def response_of_def blank_def
        interpretLocally_def interpretSlot_def batch_of_def div1_request_def div1_slot_def
        div2_slot_def matched_def matches_def strict_eq_def or_undefined_def dot_def)


subsection \<open>The request builder\<close>

lemma step_done: "foldl step 4 s = 4"
  by (induction s) simp_all

lemma step_pattern: "foldl step q (''im=1'' @ s) = 4"
  by (simp add: step_done)

lemma sublist_im1:
  assumes "sublist ''im=1'' s"
  shows "foldl step 0 s = 4"
proof -
  from assms obtain ps ss where "s = ps @ ''im=1'' @ ss"
    by (auto simp: sublist_def)
  then have "foldl step 0 s = foldl step (foldl step 0 ps) (''im=1'' @ ss)"
    by (simp only: foldl_append)
  then show ?thesis by (simp only: step_pattern)
qed

lemma show_nat_digits: "c \<in> set (show_nat n) \<Longrightarrow> is_digit c"
proof (induction n rule: show_nat.induct)
  case (1 n)
  show ?case
  proof (cases "n < 10")
    case True
    with "1.prems" show ?thesis by (simp add: show_nat.simps [of n] is_digit_def)
  next
    case False
    with "1.prems" have "c \<in> set (show_nat (n div 10)) \<or> c = char_of (48 + n mod 10)"
      by (auto simp: show_nat.simps [of n])
    then show ?thesis
    proof
      assume "c \<in> set (show_nat (n div 10))"
      with False "1.IH" show ?thesis by simp
    next
      assume c: "c = char_of (48 + n mod 10)"
      have "n mod 10 < 10" by simp
      then have "(48 + n mod 10) mod 256 = 48 + n mod 10" by simp
      then show ?thesis by (simp add: c is_digit_def)
    qed
  qed
qed


lemma step_digit: "is_digit c \<Longrightarrow> step 0 c = 0"
  by (auto simp: is_digit_def)

lemma scan_digits: "\<forall>c\<in>set s. is_digit c \<Longrightarrow> foldl step 0 s = 0"
  by (induction s) (simp_all add: step_digit del: step.simps)

lemma show_207: "show_nat PROFILE_ID = ''207''"
  unfolding PROFILE_ID_def by code_simp

lemma show_5: "show_nat ADAPTER_VERSION = ''5''"
  unfolding ADAPTER_VERSION_def by code_simp

lemma forEach_mode_last:
  "forEach_mode bs m = Some r \<Longrightarrow>
   r = (case filter truthy (map (\<lambda>b. dot (dot b ''params'') ''integrationMode'') bs) of
          [] \<Rightarrow> m | v # vs \<Rightarrow> last (v # vs))"
proof (induction bs arbitrary: m)
  case Nil
  then show ?case by simp
next
  case (Cons b bs)
  from Cons.prems obtain ps d where ps: "get b ''params'' = Some ps"
    and d: "get ps ''integrationMode'' = Some d"
    and r: "forEach_mode bs (if truthy d then d else m) = Some r"
    by (auto simp: bind_eq_Some_conv)
  from get_SomeD [OF ps] get_SomeD [OF d]
  have d': "d = dot (dot b ''params'') ''integrationMode''" by simp
  from Cons.IH [OF r] show ?case
    by (auto simp: d' split: list.splits)
qed

lemma buildContext_mode:
  "buildContext w bs = Some c \<Longrightarrow> integrationMode c = last_truthy ''integrationMode'' bs"
  by (auto simp: buildContext_def bind_eq_Some_conv last_truthy_def dest!: forEach_mode_last)

lemma scan_head:
  "foldl step 0 (CDB_ENDPOINT @ ''?profileId='' @ show_nat PROFILE_ID @ ''&av=''
       @ show_nat ADAPTER_VERSION @ ''&cb='') = 0"
  by (simp add: CDB_ENDPOINT_def show_207 show_5)

lemma scan_flags:
  "foldl step 0 ((if d then ''&debug=1'' else []) @ (if n then ''&nolog=1'' else [])) = 0"
  by (cases d; cases n) simp_all

lemma scan_inherited:
  "\<forall>t \<in> snd ` set Object_prototype. foldl step 3 t = 0"
  by (simp add: Object_prototype_def native_code_def)

lemma mode_text_amp: "integration_mode_text ''amp'' = Some ''1''"
  unfolding integration_mode_text_def INTEGRATION_MODES_def by code_simp

lemma mode_text_other:
  "key \<noteq> ''amp'' \<Longrightarrow> integration_mode_text key = map_of Object_prototype key"
  by (simp add: integration_mode_text_def INTEGRATION_MODES_def)

lemma scan_mode:
  assumes "key \<noteq> ''amp''"
  shows "foldl step 0 (case integration_mode_text key of Some code \<Rightarrow> ''&im='' @ code | None \<Rightarrow> []) = 0"
proof (cases "map_of Object_prototype key")
  case None
  then show ?thesis by (simp add: mode_text_other [OF assms])
next
  case (Some t)
  then have "t \<in> snd ` set Object_prototype"
    by (metis map_of_SomeD image_eqI snd_conv)
  with scan_inherited have "foldl step 3 t = 0" by (rule bspec)
  then show ?thesis by (simp add: mode_text_other [OF assms] Some del: step.simps) simp
qed

lemma url_without_amp:
  assumes "toStr w (integrationMode c) \<noteq> ''amp''"
  shows "foldl step 0 (buildCdbUrl w c) = 0"
proof -
  have d: "foldl step 0 (show_nat (random w)) = 0"
    by (rule scan_digits) (simp add: show_nat_digits)
  show ?thesis
    unfolding buildCdbUrl_def
    by (simp only: foldl_append scan_head [simplified foldl_append] d scan_mode [OF assms]
          scan_flags [simplified foldl_append])
qed

lemma url_with_amp:
  assumes "toStr w (integrationMode c) = ''amp''"
  shows "sublist ''im=1'' (buildCdbUrl w c)"
proof -
  have "buildCdbUrl w c =
      (CDB_ENDPOINT @ ''?profileId='' @ show_nat PROFILE_ID @ ''&av='' @ show_nat ADAPTER_VERSION
         @ ''&cb='' @ show_nat (random w) @ ''&'')
      @ ''im=1'' @ ((if debug c then ''&debug=1'' else []) @ (if noLog c then ''&nolog=1'' else []))"
    by (simp add: buildCdbUrl_def assms mode_text_amp)
  then show ?thesis by (simp only: sublist_appendI)
qed

lemma url_constants:
  "sublist ''profileId=207'' (buildCdbUrl w c)" "sublist ''av=5'' (buildCdbUrl w c)"
proof -
  let ?tail = "(case integration_mode_text (toStr w (integrationMode c)) of
            Some code \<Rightarrow> ''&im='' @ code | None \<Rightarrow> [])
       @ (if debug c then ''&debug=1'' else []) @ (if noLog c then ''&nolog=1'' else [])"
  have "buildCdbUrl w c = (CDB_ENDPOINT @ ''?'') @ ''profileId=207''
         @ (''&av=5&cb='' @ show_nat (random w) @ ?tail)"
    by (simp add: buildCdbUrl_def show_207 show_5)
  then show "sublist ''profileId=207'' (buildCdbUrl w c)" by (simp only: sublist_appendI)
  have "buildCdbUrl w c = (CDB_ENDPOINT @ ''?profileId=207&'') @ ''av=5''
         @ (''&cb='' @ show_nat (random w) @ ?tail)"
    by (simp add: buildCdbUrl_def show_207 show_5)
  then show "sublist ''av=5'' (buildCdbUrl w c)" by (simp only: sublist_appendI)
qed

lemma get_index_Some: "\<not> nullish s \<Longrightarrow> \<exists>x. get_index s i = Some x"
  by (cases s) (simp_all add: nullish_def)

lemma map_sizes_total:
  "\<forall>s\<in>set xs. \<not> nullish s \<Longrightarrow> \<exists>r. map_sizes w xs = Some r"
proof (induction xs)
  case Nil
  then show ?case by simp
next
  case (Cons s xs)
  then obtain r where r: "map_sizes w xs = Some r" by auto
  from Cons.prems have "\<not> nullish s" by simp
  from get_index_Some [OF this, of 0] get_index_Some [OF this, of 1]
  obtain a b where "get_index s 0 = Some a" "get_index s 1 = Some b" by auto
  with r show ?case by simp
qed

lemma sizes_of_total:
  "isArray sizes \<Longrightarrow> \<forall>s\<in>set (elements sizes). \<not> nullish s \<Longrightarrow> \<exists>r. sizes_of w sizes = Some r"
  using map_sizes_total [of "elements sizes" w] by (auto simp: sizes_of_def)

lemma map_slots_total:
  "\<forall>b\<in>set bs. well_formed b \<Longrightarrow> \<exists>slots n. map_slots w bs n0 = Some (slots, n)"
proof (induction bs arbitrary: n0)
  case Nil
  then show ?case by simp
next
  case (Cons b bs)
  from Cons.prems have wf: "well_formed b" and rest: "\<forall>b\<in>set bs. well_formed b" by simp_all
  from wf have nb: "\<not> nullish b" and np: "\<not> nullish (dot b ''params'')"
    by (simp_all add: well_formed_def usable_def)
  from wf obtain strs where s: "sizes_of w (dot b ''sizes'') = Some strs"
    using sizes_of_total [of "dot b ''sizes''" w] by (auto simp: well_formed_def)
  let ?d = "dot (dot b ''params'') ''networkId''"
  from Cons.IH [OF rest, of "if truthy ?d then ?d else n0"]
  obtain slots n where "map_slots w bs (if truthy ?d then ?d else n0) = Some (slots, n)" by blast
  then show ?case
    by (simp add: get_Some nb np s)
qed

lemma map_slots_result:
  "map_slots w bs n0 = Some (slots, n) \<Longrightarrow>
   length slots = length bs \<and>
   n = (case filter truthy (map (\<lambda>b. dot (dot b ''params'') ''networkId'') bs) of
          [] \<Rightarrow> n0 | v # vs \<Rightarrow> last (v # vs))"
proof (induction bs arbitrary: n0 slots)
  case Nil
  then show ?case by simp
next
  case (Cons b bs)
  from Cons.prems obtain ps d rest where ps: "get b ''params'' = Some ps"
    and d: "get ps ''networkId'' = Some d"
    and r: "map_slots w bs (if truthy d then d else n0) = Some (rest, n)"
    and l: "length slots = Suc (length rest)"
    by (auto simp: bind_eq_Some_conv)
  from get_SomeD [OF ps] get_SomeD [OF d]
  have d': "d = dot (dot b ''params'') ''networkId''" by simp
  from Cons.IH [OF r] l show ?case
    by (auto simp: d' split: list.splits)
qed

lemma get_index_truthy: "truthy v \<Longrightarrow> \<exists>x. get_index v i = Some x"
  by (cases v) simp_all

lemma consentGiven_total: "truthy g \<Longrightarrow> \<exists>r. consentGiven g = Some r"
proof (cases "truthy (dot g ''vendorData'')
              \<and> truthy (dot (dot g ''vendorData'') ''vendorConsents'')")
  case True
  assume g: "truthy g"
  from True get_index_truthy obtain x
    where "get_index (dot (dot g ''vendorData'') ''vendorConsents'') CRITEO_VENDOR_ID = Some x"
    by blast
  with True g show ?thesis by (simp add: consentGiven_def get_truthy)
next
  case False
  assume g: "truthy g"
  with False show ?thesis
    by (cases "truthy (dot g ''vendorData'')") (auto simp: consentGiven_def get_truthy)
qed

lemma gdpr_block_total: "\<exists>g. gdpr_block br = Some g"
proof (cases "truthy br \<and> truthy (dot br ''gdprConsent'')")
  case True
  then obtain r where "consentGiven (dot br ''gdprConsent'') = Some r"
    using consentGiven_total by blast
  with True show ?thesis by (simp add: gdpr_block_def get_truthy)
next
  case False
  then show ?thesis by (auto simp: gdpr_block_def get_truthy)
qed

lemma buildCdbRequest_shape:
  assumes "buildCdbRequest w c bs br = Some payload"
  shows "\<exists>slots g. length slots = length bs \<and>
           payload = Obj ([(''publisher'',
               Obj ((''url'', Str (ctx_url c)) #
                    (if truthy (last_truthy ''networkId'' bs)
                     then [(''networkid'', last_truthy ''networkId'' bs)] else []))),
              (''slots'', Arr slots)] @ g)"
proof -
  from assms obtain slots n g where m: "map_slots w bs Undefined = Some (slots, n)"
    and p: "payload = Obj ([(''publisher'',
                  Obj ([(''url'', Str (ctx_url c))] @ optional ''networkid'' n n)),
                 (''slots'', Arr slots)] @ g)"
    by (auto simp: buildCdbRequest_def bind_eq_Some_conv)
  from map_slots_result [OF m] have "length slots = length bs" "n = last_truthy ''networkId'' bs"
    by (simp_all add: last_truthy_def)
  with p show ?thesis by (auto simp: optional_def)
qed

lemma buildCdbRequest_total:
  assumes "\<forall>b\<in>set bs. well_formed b"
  shows "\<exists>payload. buildCdbRequest w c bs br = Some payload"
proof -
  from map_slots_total [OF assms, of w Undefined] obtain slots n
    where "map_slots w bs Undefined = Some (slots, n)" by blast
  moreover from gdpr_block_total obtain g where "gdpr_block br = Some g" by blast
  ultimately show ?thesis by (simp add: buildCdbRequest_def)
qed

lemma placement_well_formed: "well_formed (placement code params)"
  by (simp add: well_formed_def usable_def placement_def nullish_def dot_def or_undefined_def)

lemma dot_Obj: "dot (Obj ps) k = (case map_of ps k of None \<Rightarrow> Undefined | Some v \<Rightarrow> v)"
  by (simp add: dot_def or_undefined_def)

lemma placement_params [simp]: "dot (placement code params) ''params'' = Obj params"
  by (simp add: placement_def dot_def or_undefined_def)

lemma build_locally_shape:
  assumes "build_locally w bs br = Some (url, payload)"
  shows "truthy payload \<and> (\<exists>slots. dot payload ''slots'' = Arr slots \<and> length slots = length bs)"
proof -
  from assms obtain c where "buildCdbRequest w c bs br = Some payload"
    by (auto simp: build_locally_def bind_eq_Some_conv Let_def)
  from buildCdbRequest_shape [OF this] show ?thesis
    by (auto simp: dot_Obj)
qed

lemma show_42: "show_nat 42 = ''42''"
  by code_simp

lemma empty_batch_request:
  "buildRequests bare_browser [] (Obj [(''timeout'', Num 3000)]) blank =
     (Some (Request
        \<lparr>req_method = ''POST'',
         req_url = Str ''//bidder.criteo.com/cdb?profileId=207&av=5&cb=42'',
         req_data = Obj [(''publisher'', Obj [(''url'', Str ''http://publisher.test/'')]),
                         (''slots'', Arr [])],
         req_bidRequests = []\<rparr>),
      blank\<lparr>usePrebidEvents := Some False, timers := [Num 3000]\<rparr>)"
  by (simp add: buildRequests_def prepare_def tryGetCriteoFastBid_def blank_def bare_browser_def
        build_locally_def buildContext_def buildCdbUrl_def buildCdbRequest_def gdpr_block_def
        consentGiven_def optional_def CDB_ENDPOINT_def show_207 show_5 show_42
        integration_mode_text_def INTEGRATION_MODES_def Object_prototype_def)

lemma amp_context:
  "buildContext bare_browser [placement ''div1'' [(''integrationMode'', Str ''amp'')]] =
     Some \<lparr>ctx_url = ''http://publisher.test/'', debug = False, noLog = False,
           integrationMode = Str ''amp''\<rparr>"
  by (simp add: buildContext_def placement_def bare_browser_def)

lemma forEach_mode_total:
  "\<forall>b\<in>set bs. usable b \<Longrightarrow> \<exists>r. forEach_mode bs m = Some r"
proof (induction bs arbitrary: m)
  case Nil
  then show ?case by simp
next
  case (Cons b bs)
  then have "\<not> nullish b" "\<not> nullish (dot b ''params'')" by (simp_all add: usable_def)
  with Cons show ?case by (simp add: get_Some)
qed

lemma buildContext_total:
  "search w \<noteq> None \<Longrightarrow> \<forall>b\<in>set bs. usable b \<Longrightarrow> \<exists>c. buildContext w bs = Some c"
  using forEach_mode_total [of bs Undefined] by (auto simp: buildContext_def)

text \<open>
  On a page whose address \<^verbatim>\<open>parse\<close> rejects no context is built: the exception of line
  142 ends \<^verbatim>\<open>buildContext\<close>, and with it the local branch of \<^verbatim>\<open>buildRequests\<close>.
\<close>

lemma buildContext_unparsed: "search w = None \<Longrightarrow> buildContext w bs = None"
  by (simp add: buildContext_def)

lemma well_formed_usable: "well_formed b \<Longrightarrow> usable b"
  by (simp add: well_formed_def)

lemma build_locally_total:
  assumes "search w \<noteq> None" and "\<forall>b\<in>set bs. well_formed b"
  shows "\<exists>url payload. build_locally w bs br = Some (url, payload)"
proof -
  from assms(2) have "\<forall>b\<in>set bs. usable b" by (simp add: well_formed_usable)
  from buildContext_total [OF assms(1) this] obtain c where c: "buildContext w bs = Some c"
    by blast
  from buildCdbRequest_total [OF assms(2)] obtain payload
    where "buildCdbRequest w c bs br = Some payload" by blast
  with c show ?thesis by (simp add: build_locally_def)
qed

lemma prepare_local:
  assumes "pubTag (snd (prepare w br p)) = None" and "\<not> nullish br"
  shows "fst (prepare w br p) = True"
proof (cases "pubTag p")
  case None
  with assms(2) show ?thesis by (simp add: prepare_def get_Some Let_def)
next
  case (Some d)
  with assms(1) show ?thesis by (simp add: prepare_def)
qed

text \<open>
  C7, as the code has it. Whenever \<^verbatim>\<open>buildCdbRequest\<close> returns a payload, its publisher
  block holds the page URL and, as \<^verbatim>\<open>networkid\<close>, the network id of the last request of
  the batch whose network id is truthy; the field is omitted when no request has a truthy
  network id. The builder returns a payload for every batch of well-formed requests.
\<close>

theorem networkid_last_truthy:
  "(\<forall>payload. buildCdbRequest w c bs br = Some payload \<longrightarrow>
       dot payload ''publisher'' =
           Obj ((''url'', Str (ctx_url c)) #
                (if truthy (last_truthy ''networkId'' bs)
                 then [(''networkid'', last_truthy ''networkId'' bs)] else [])))
   \<and> ((\<forall>b\<in>set bs. well_formed b) \<longrightarrow> (\<exists>payload. buildCdbRequest w c bs br = Some payload))"
proof (intro conjI allI impI)
  fix payload
  assume "buildCdbRequest w c bs br = Some payload"
  from buildCdbRequest_shape [OF this]
  show "dot payload ''publisher'' =
           Obj ((''url'', Str (ctx_url c)) #
                (if truthy (last_truthy ''networkId'' bs)
                 then [(''networkid'', last_truthy ''networkId'' bs)] else []))"
    by (auto simp: dot_Obj)
next
  assume "\<forall>b\<in>set bs. well_formed b"
  then show "\<exists>payload. buildCdbRequest w c bs br = Some payload"
    by (rule buildCdbRequest_total)
qed


text \<open>
  The example of the specification: of two requests only the second declares the network
  id 42, and the payload carries 42.
\<close>

theorem networkid_last_truthy_witness:
  "\<exists>payload. buildCdbRequest bare_browser page_context
       [placement ''div1'' [(''zoneId'', Num 7)], placement ''div2'' [(''networkId'', Num 42)]]
       Undefined = Some payload
     \<and> dot (dot payload ''publisher'') ''networkid'' = Num 42"
proof -
  let ?bs = "[placement ''div1'' [(''zoneId'', Num 7)], placement ''div2'' [(''networkId'', Num 42)]]"
  note t = networkid_last_truthy [of bare_browser page_context ?bs Undefined]
  have "\<forall>b\<in>set ?bs. well_formed b" by (simp add: placement_well_formed)
  with t obtain payload
    where p: "buildCdbRequest bare_browser page_context ?bs Undefined = Some payload" by blast
  have "last_truthy ''networkId'' ?bs = Num 42"
    by (simp add: last_truthy_def dot_Obj)
  with t p have "dot (dot payload ''publisher'') ''networkid'' = Num 42"
    by (simp add: dot_Obj)
  with p show ?thesis by blast
qed

text \<open>
  C7, as the specification words it, fails for a batch whose last request declares the
  network id 0: the payload carries the 42 of the request before it.
\<close>

theorem zero_networkId_ignored:
  "last_declared ''networkId''
     [placement ''div1'' [(''networkId'', Num 42)], placement ''div2'' [(''networkId'', Num 0)]]
     = Num 0
   \<and> map_option (\<lambda>payload. dot (dot payload ''publisher'') ''networkid'')
       (buildCdbRequest bare_browser page_context
          [placement ''div1'' [(''networkId'', Num 42)], placement ''div2'' [(''networkId'', Num 0)]]
          Undefined)
     = Some (Num 42)"
proof -
  let ?bs = "[placement ''div1'' [(''networkId'', Num 42)], placement ''div2'' [(''networkId'', Num 0)]]"
  have "\<forall>b\<in>set ?bs. well_formed b" by (simp add: placement_well_formed)
  from buildCdbRequest_total [OF this] obtain payload
    where p: "buildCdbRequest bare_browser page_context ?bs Undefined = Some payload" by blast
  have "last_truthy ''networkId'' ?bs = Num 42"
    by (simp add: last_truthy_def dot_Obj)
  with buildCdbRequest_shape [OF p] have "dot (dot payload ''publisher'') ''networkid'' = Num 42"
    by (auto simp: dot_def or_undefined_def)
  moreover have "last_declared ''networkId'' ?bs = Num 0"
    by (simp add: last_declared_def declares_def dot_Obj)
  ultimately show ?thesis using p by simp
qed


text \<open>
  C4, as the code has it. As long as no delegate is present after the attempt on the cached
  script, \<^verbatim>\<open>buildRequests\<close> never returns nothing: what it returns is a request for the
  whole batch whose payload has one slot entry per bid request. It does return one for
  every batch of well-formed requests that comes with a bidder request, the empty batch
  among them, on a page whose address \<^verbatim>\<open>parse\<close> accepts; on a page whose address
  \<^verbatim>\<open>parse\<close> rejects it throws.
\<close>

theorem local_builder_never_yields_nothing:
  assumes "pubTag (snd (prepare w br p)) = None"
  shows "(\<forall>r. fst (buildRequests w bs br p) = Some r \<longrightarrow>
            (\<exists>req slots. r = Request req \<and> req_bidRequests req = bs
               \<and> dot (req_data req) ''slots'' = Arr slots \<and> length slots = length bs))
       \<and> (search w \<noteq> None \<and> \<not> nullish br \<and> (\<forall>b\<in>set bs. well_formed b) \<longrightarrow>
            (\<exists>req. fst (buildRequests w bs br p) = Some (Request req)))
       \<and> (search w = None \<longrightarrow> fst (buildRequests w bs br p) = None)"
proof -
  obtain ok p' where pr: "prepare w br p = (ok, p')" by (cases "prepare w br p")
  with assms have np: "pubTag p' = None" by simp
  have returned: "\<exists>req slots. r = Request req \<and> req_bidRequests req = bs
               \<and> dot (req_data req) ''slots'' = Arr slots \<and> length slots = length bs"
    if a: "fst (buildRequests w bs br p) = Some r" for r
  proof -
    from a pr np obtain url payload where b: "build_locally w bs br = Some (url, payload)"
      and r: "r = (if truthy payload
                   then Request \<lparr>req_method = ''POST'', req_url = url, req_data = payload,
                                 req_bidRequests = bs\<rparr>
                   else Nothing)"
      by (auto simp: buildRequests_def split: bool.splits option.splits if_splits)
    from build_locally_shape [OF b] r show ?thesis by auto
  qed
  have returns: "\<exists>req. fst (buildRequests w bs br p) = Some (Request req)"
    if a: "search w \<noteq> None \<and> \<not> nullish br \<and> (\<forall>b\<in>set bs. well_formed b)"
  proof -
    from a have nb: "\<not> nullish br" by simp
    from prepare_local [OF assms nb] pr have ok: "ok = True" by simp
    from a build_locally_total [of w bs br] obtain url payload
      where b: "build_locally w bs br = Some (url, payload)" by blast
    from build_locally_shape [OF b] have "truthy payload" by simp
    with b pr ok np show ?thesis by (simp add: buildRequests_def)
  qed
  have throws: "fst (buildRequests w bs br p) = None" if a: "search w = None"
  proof -
    have "build_locally w bs br = None"
      by (simp add: build_locally_def buildContext_unparsed [OF a])
    with pr np show ?thesis by (cases ok) (simp_all add: buildRequests_def)
  qed
  from returned returns throws show ?thesis by blast
qed

text \<open>
  The empty batch on the page of \<open>bare_browser\<close> gives a request with an empty slot list;
  on a page whose address has a stray \<^verbatim>\<open>%\<close> the call throws.
\<close>

theorem local_builder_never_yields_nothing_witness:
  "(\<exists>req. fst (buildRequests bare_browser [] (Obj [(''timeout'', Num 3000)]) blank)
           = Some (Request req)
        \<and> req_bidRequests req = [] \<and> dot (req_data req) ''slots'' = Arr [])
   \<and> fst (buildRequests stray_percent_browser [] (Obj [(''timeout'', Num 3000)]) blank) = None"
proof -
  have 1: "pubTag (snd (prepare bare_browser (Obj [(''timeout'', Num 3000)]) blank)) = None"
    by (simp add: prepare_def tryGetCriteoFastBid_def blank_def bare_browser_def)
  have 2: "search bare_browser \<noteq> None \<and> \<not> nullish (Obj [(''timeout'', Num 3000)])
           \<and> (\<forall>b\<in>set []. well_formed b)"
    by (simp add: nullish_def bare_browser_def)
  from local_builder_never_yields_nothing [OF 1, of "[]"] 2
  obtain req where r: "fst (buildRequests bare_browser [] (Obj [(''timeout'', Num 3000)]) blank)
      = Some (Request req)"
    by blast
  with local_builder_never_yields_nothing [OF 1, of "[]"]
  have "req_bidRequests req = [] \<and> dot (req_data req) ''slots'' = Arr []"
    by auto
  with r have first: "\<exists>req. fst (buildRequests bare_browser [] (Obj [(''timeout'', Num 3000)]) blank)
           = Some (Request req)
        \<and> req_bidRequests req = [] \<and> dot (req_data req) ''slots'' = Arr []"
    by blast
  have 3: "pubTag (snd (prepare stray_percent_browser (Obj [(''timeout'', Num 3000)]) blank)) = None"
    by (simp add: prepare_def tryGetCriteoFastBid_def blank_def stray_percent_browser_def
          bare_browser_def)
  have 4: "search stray_percent_browser = None"
    by (simp add: stray_percent_browser_def)
  from local_builder_never_yields_nothing [OF 3, of "[]"] 4
  have "fst (buildRequests stray_percent_browser [] (Obj [(''timeout'', Num 3000)]) blank) = None"
    by blast
  with first show ?thesis by blast
qed

text \<open>
  C4, as the specification words it, fails for the empty batch: the request builder returns
  a request with an empty slot list.
\<close>

theorem empty_batch_yields_request:
  "fst (buildRequests bare_browser [] (Obj [(''timeout'', Num 3000)]) blank) =
     Some (Request
        \<lparr>req_method = ''POST'',
         req_url = Str ''//bidder.criteo.com/cdb?profileId=207&av=5&cb=42'',
         req_data = Obj [(''publisher'', Obj [(''url'', Str ''http://publisher.test/'')]),
                         (''slots'', Arr [])],
         req_bidRequests = []\<rparr>)"
  by (simp add: empty_batch_request)

text \<open>
  C6, as the code has it. Every URL that \<^verbatim>\<open>buildCdbUrl\<close> builds contains
  \<^verbatim>\<open>profileId=207\<close> and \<^verbatim>\<open>av=5\<close>. Built from the context of a batch, it contains
  \<^verbatim>\<open>im=1\<close> exactly when the integration mode of the last request of the batch that has a
  truthy one is, as a property key, \<^verbatim>\<open>amp\<close>. The context is built for every batch of
  usable requests on a page whose address \<^verbatim>\<open>parse\<close> accepts.
\<close>

theorem url_parameters:
  "sublist ''profileId=207'' (buildCdbUrl w c) \<and> sublist ''av=5'' (buildCdbUrl w c)
   \<and> (buildContext w bs = Some c \<longrightarrow>
        (sublist ''im=1'' (buildCdbUrl w c)
           \<longleftrightarrow> toStr w (last_truthy ''integrationMode'' bs) = ''amp''))
   \<and> (search w \<noteq> None \<and> (\<forall>b\<in>set bs. usable b) \<longrightarrow> (\<exists>c'. buildContext w bs = Some c'))"
proof (intro conjI impI)
  show "sublist ''profileId=207'' (buildCdbUrl w c)" "sublist ''av=5'' (buildCdbUrl w c)"
    by (rule url_constants)+
next
  assume c: "buildContext w bs = Some c"
  show "sublist ''im=1'' (buildCdbUrl w c)
            \<longleftrightarrow> toStr w (last_truthy ''integrationMode'' bs) = ''amp''"
  proof
    assume s: "sublist ''im=1'' (buildCdbUrl w c)"
    show "toStr w (last_truthy ''integrationMode'' bs) = ''amp''"
    proof (rule ccontr)
      assume "toStr w (last_truthy ''integrationMode'' bs) \<noteq> ''amp''"
      then have "toStr w (integrationMode c) \<noteq> ''amp''"
        by (simp add: buildContext_mode [OF c])
      from url_without_amp [OF this] sublist_im1 [OF s] show False by simp
    qed
  next
    assume "toStr w (last_truthy ''integrationMode'' bs) = ''amp''"
    then have "toStr w (integrationMode c) = ''amp''"
      by (simp add: buildContext_mode [OF c])
    then show "sublist ''im=1'' (buildCdbUrl w c)" by (rule url_with_amp)
  qed
next
  assume "search w \<noteq> None \<and> (\<forall>b\<in>set bs. usable b)"
  then show "\<exists>c'. buildContext w bs = Some c'" by (simp add: buildContext_total)
qed

theorem url_parameters_witness:
  "sublist ''profileId=207''
     (buildCdbUrl bare_browser \<lparr>ctx_url = ''http://publisher.test/'', debug = False,
        noLog = False, integrationMode = Str ''amp''\<rparr>)
   \<and> sublist ''av=5''
     (buildCdbUrl bare_browser \<lparr>ctx_url = ''http://publisher.test/'', debug = False,
        noLog = False, integrationMode = Str ''amp''\<rparr>)
   \<and> sublist ''im=1''
     (buildCdbUrl bare_browser \<lparr>ctx_url = ''http://publisher.test/'', debug = False,
        noLog = False, integrationMode = Str ''amp''\<rparr>)"
  using url_parameters [of bare_browser
      "\<lparr>ctx_url = ''http://publisher.test/'', debug = False, noLog = False,
        integrationMode = Str ''amp''\<rparr>"
      "[placement ''div1'' [(''integrationMode'', Str ''amp'')]]"]
  by (simp add: amp_context last_truthy_def dot_Obj)

text \<open>
  C6, as the specification words it, fails in two ways. An empty mode declared after
  \<^verbatim>\<open>amp\<close> overrides nothing, so the URL still carries \<^verbatim>\<open>im=1\<close>. And the \<^verbatim>\<open>in\<close> test
  accepts the names that the table inherits, so a mode outside the whitelist such as
  \<^verbatim>\<open>constructor\<close> puts an \<^verbatim>\<open>im\<close> parameter into the URL.
\<close>

theorem empty_mode_does_not_override:
  "\<not> im_as_specified [placement ''div1'' [(''integrationMode'', Str ''amp'')],
                       placement ''div2'' [(''integrationMode'', Str [])]]
   \<and> map_option (buildCdbUrl bare_browser)
        (buildContext bare_browser [placement ''div1'' [(''integrationMode'', Str ''amp'')],
                                    placement ''div2'' [(''integrationMode'', Str [])]])
     = Some ''//bidder.criteo.com/cdb?profileId=207&av=5&cb=42&im=1''
   \<and> \<not> whitelisted (Str ''constructor'')
   \<and> map_option (buildCdbUrl bare_browser)
        (buildContext bare_browser [placement ''div1'' [(''integrationMode'', Str ''constructor'')]])
     = Some ''//bidder.criteo.com/cdb?profileId=207&av=5&cb=42&im=function Object() { [native code] }''"
proof -
  have "\<not> im_as_specified [placement ''div1'' [(''integrationMode'', Str ''amp'')],
                       placement ''div2'' [(''integrationMode'', Str [])]]"
    by (simp add: declares_def whitelisted_def INTEGRATION_MODES_def dot_Obj)
  moreover have "\<not> whitelisted (Str ''constructor'')"
    by (simp add: whitelisted_def INTEGRATION_MODES_def)
  moreover have "map_option (buildCdbUrl bare_browser)
        (buildContext bare_browser [placement ''div1'' [(''integrationMode'', Str ''amp'')],
                                    placement ''div2'' [(''integrationMode'', Str [])]])
     = Some ''//bidder.criteo.com/cdb?profileId=207&av=5&cb=42&im=1''"
    by (simp add: buildContext_def placement_def bare_browser_def buildCdbUrl_def
          CDB_ENDPOINT_def show_207 show_5 show_42 mode_text_amp)
  moreover have "map_option (buildCdbUrl bare_browser)
        (buildContext bare_browser [placement ''div1'' [(''integrationMode'', Str ''constructor'')]])
     = Some ''//bidder.criteo.com/cdb?profileId=207&av=5&cb=42&im=function Object() { [native code] }''"
    by (simp add: buildContext_def placement_def bare_browser_def buildCdbUrl_def
          CDB_ENDPOINT_def show_207 show_5 show_42 mode_text_other Object_prototype_def
          native_code_def)
  ultimately show ?thesis by simp
qed


end
